theory Spec2Isabelle
  imports Main "HOL-Library.Word" "HOL-Library.Sublist"
begin

unbundle bit_operations_syntax

section \<open>Regex nodes, trees and analysis results\<close>

text \<open>
  The emitter of \<^verbatim>\<open>convert_execute.go\<close> walks a \<^verbatim>\<open>syntax.RegexNode\<close> tree and writes Go
  source text.  The node type, the tree and the analysis results come from the
  \<^verbatim>\<open>syntax\<close> package; only the fields and methods the emitter reads are modelled.
  A rune is Go's \<^verbatim>\<open>int32\<close> code point; the emitter only compares runes and hands them to
  formatting helpers, so they are integers here.
\<close>

type_synonym rune = int

datatype NodeType =
    NtNothing | NtEmpty | NtOne | NtNotone | NtSet | NtMulti
  | NtOneloop | NtNotoneloop | NtSetloop | NtOnelazy | NtNotonelazy | NtSetlazy
  | NtRef | NtBol | NtEol | NtBoundary | NtNonboundary | NtBeginning | NtStart
  | NtEndZ | NtEnd | NtECMABoundary | NtNonECMABoundary | NtUpdateBumpalong
  | NtCapture | NtConcatenate | NtAlternate | NtLoop | NtLazyloop
  | NtPosLook | NtNegLook | NtAtomic | NtBackRefCond | NtExprCond
  | NtOther int

text \<open>
  A character class, seen through the methods the emitter calls on it:
  \<^verbatim>\<open>IsAnything()\<close>, \<^verbatim>\<open>IsNegated()\<close> and \<^verbatim>\<open>GetIfNRanges(1)\<close>.  Its methods \<^verbatim>\<open>GetSetChars(buf)\<close>
  and \<^verbatim>\<open>String()\<close> are collaborators, below.
\<close>

record CharSet =
  IsAnything :: bool
  IsNegated :: bool
  GetIfNRanges1 :: "(rune \<times> rune) list"

datatype RegexNode =
  RegexNode (T: NodeType) (Options: "32 word") (Children: "RegexNode list")
            (Ch: rune) (Str: "rune list") (Set: CharSet) (M: int) (N: int)

text \<open>\<^verbatim>\<open>syntax.RightToLeft\<close>, the option bit the emitter tests.\<close>

definition RightToLeft :: "32 word" where
  "RightToLeft = 0x40"

text \<open>\<^verbatim>\<open>math.MaxInt32\<close>, the sentinel for an unbounded loop.\<close>

definition MaxInt32 :: int where
  "MaxInt32 = 2147483647"



datatype FindMode = LiteralAfterLoop_LeftToRight | OtherFindMode

record FindOptimizations =
  FindMode :: FindMode
  LiteralAfterLoop_LoopNode :: "RegexNode option"

record RegexTree =
  Root :: RegexNode
  Caps :: "(int \<rightharpoonup> int) option"
  Caplist :: "string list"
  Capnumlist :: "int list option"
  Captop :: int
  FindOptimizations :: FindOptimizations

text \<open>
  The precomputed analysis.  The Go methods take node pointers; the tree is finite, so a
  node differs from each of its proper descendants and the model keys the results on the
  node value.
\<close>

record AnalysisResults =
  MayBacktrack :: "RegexNode \<Rightarrow> bool"
  IsAtomicByAncestor :: "RegexNode \<Rightarrow> bool"
  IsInLoop :: "RegexNode \<Rightarrow> bool"
  MayContainCapture :: "RegexNode \<Rightarrow> bool"

section \<open>Emitter state\<close>

text \<open>
  One record holds what the emitters mutate: the converter's output \<open>out\<close> and the
  fields of \<^verbatim>\<open>regexpData\<close>.  The output is the list of the strings written, one element per
  call of \<^verbatim>\<open>write\<close>, \<^verbatim>\<open>writeLine\<close> or \<^verbatim>\<open>writeLineFmt\<close>; the text produced is their concatenation.
\<close>

record regexpData =
  out :: "string list"
  GeneratedName :: string
  rmOptions :: "32 word"
  Tree :: RegexTree
  Analysis :: AnalysisResults
  usedNames :: "string \<Rightarrow> nat"
  additionalDeclarations :: "string list"
  sliceSpan :: string
  sliceStaticPos :: int
  doneLabel :: string
  topLevelDoneLabel :: string
  expressionHasCaptures :: bool
  emittedLabels :: "string list"
  usedLabels :: "string list"

datatype error = IndexOutOfRange | NilDereference | UnhandledNode | OutOfFuel

section \<open>Formatting\<close>

definition tabs :: "nat \<Rightarrow> string" where
  "tabs n = replicate n (CHR 0x09)"

definition digit :: "nat \<Rightarrow> char" where
  "digit n = ''0123456789'' ! n"

fun natstr :: "nat \<Rightarrow> string" where
  "natstr n = (if n < 10 then [digit n] else natstr (n div 10) @ [digit (n mod 10)])"

declare natstr.simps [simp del]

text \<open>\<^verbatim>\<open>strconv.Itoa\<close>, which is also what \<^verbatim>\<open>%v\<close> prints for an \<^verbatim>\<open>int\<close>.\<close>

definition Itoa :: "int \<Rightarrow> string" where
  "Itoa i = (if i < 0 then ''-'' @ natstr (nat (- i)) else natstr (nat i))"

section \<open>Writer\<close>

text \<open>
  Modelled from the spec: the writer methods of the converter (\<^verbatim>\<open>write\<close> as \<open>writeText\<close>, \<^verbatim>\<open>writeLine\<close>;
  \<^verbatim>\<open>writeLineFmt\<close> is \<^verbatim>\<open>writeLine\<close> of the formatted string) append to the output; a line
  ends with a newline.
\<close>

definition writeText :: "string \<Rightarrow> regexpData \<Rightarrow> regexpData" where
  "writeText s rm = rm\<lparr>out := out rm @ [s]\<rparr>"

definition writeLine :: "string \<Rightarrow> regexpData \<Rightarrow> regexpData" where
  "writeLine s rm = rm\<lparr>out := out rm @ [s @ ''\<newline>'']\<rparr>"

text \<open>
  Modelled from the spec: \<^verbatim>\<open>reserveName\<close> of \<^verbatim>\<open>regexpData\<close>; names start unadorned and get
  a numeric suffix once the prefix has been used before.
\<close>

definition reserveName :: "string \<Rightarrow> regexpData \<Rightarrow> string \<times> regexpData" where
  "reserveName pfx rm =
     (let count = usedNames rm pfx in
        (if count = 0 then pfx else pfx @ Itoa (int count),
         rm\<lparr>usedNames := (usedNames rm)(pfx := count + 1)\<rparr>))"

text \<open>
  Modelled from the spec: \<^verbatim>\<open>addLocalDec\<close> of \<^verbatim>\<open>regexpData\<close> records a declaration to be
  written at the top of the procedure.
\<close>

definition addLocalDec :: "string \<Rightarrow> regexpData \<Rightarrow> regexpData" where
  "addLocalDec s rm = rm\<lparr>additionalDeclarations := additionalDeclarations rm @ [s]\<rparr>"

section \<open>Small emitters\<close>

definition emitAddStmt :: "string \<Rightarrow> int \<Rightarrow> regexpData \<Rightarrow> regexpData" where
  "emitAddStmt variable v rm =
     (if v = 0 then rm
      else if v = 1 then writeLine (variable @ ''++'') rm
      else if v = - 1 then writeLine (variable @ ''--'') rm
      else if v > 0 then writeLine (variable @ '' += '' @ Itoa v) rm
      else if v < 0 then writeLine (variable @ '' -= '' @ Itoa (- v)) rm
      else rm)"

definition sliceInputSpan :: "bool \<Rightarrow> regexpData \<Rightarrow> regexpData" where
  "sliceInputSpan declare rm =
     (let rm = (if declare then writeText ''var '' rm else rm)
      in writeLine (sliceSpan rm @ '' = r.Runtext[pos:]'') rm)"

definition transferSliceStaticPosToPos :: "bool \<Rightarrow> regexpData \<Rightarrow> regexpData" where
  "transferSliceStaticPosToPos forceSliceReload rm =
     (if sliceStaticPos rm > 0 then
        (let rm = emitAddStmt ''pos'' (sliceStaticPos rm) rm;
             rm = rm\<lparr>sliceStaticPos := 0\<rparr>
         in sliceInputSpan False rm)
      else if forceSliceReload then sliceInputSpan False rm
      else rm)"

definition emitUncaptureUntil :: "string \<Rightarrow> regexpData \<Rightarrow> regexpData" where
  "emitUncaptureUntil capturepos rm = writeLine (''r.UncaptureUntil('' @ capturepos @ '')'') rm"

definition gotoWillExitMatch :: "regexpData \<Rightarrow> string \<Rightarrow> bool" where
  "gotoWillExitMatch rm label = (label = topLevelDoneLabel rm)"

definition emitExecuteGoto :: "string \<Rightarrow> regexpData \<Rightarrow> regexpData" where
  "emitExecuteGoto label rm =
     (if gotoWillExitMatch rm label then
        (let rm = (if expressionHasCaptures rm then emitUncaptureUntil ''0'' rm else rm)
         in writeLine ''return nil // The input didn't match.'' rm)
      else
        (let rm = rm\<lparr>usedLabels := usedLabels rm @ [label]\<rparr>
         in writeLine (''goto '' @ label) rm))"


section \<open>Emitters and the dispatcher\<close>

text \<open>
  The node dispatcher \<^verbatim>\<open>emitExecuteNode\<close> and the emitters that call it are mutually
  recursive.  Every emitter that emits a child takes the dispatcher as its first argument;
  the dispatcher itself is defined at the end, once all emitters are there.  An emitter
  returns the new state, or the error the Go code panics with.
\<close>

type_synonym emitter =
  "regexpData \<Rightarrow> RegexNode \<Rightarrow> RegexNode option \<Rightarrow> bool \<Rightarrow> error + regexpData"

section \<open>Collaborators outside the emitter\<close>

text \<open>
  The emitter calls into the \<^verbatim>\<open>syntax\<close> package, into Go's \<^verbatim>\<open>fmt\<close> and into helpers of the
  converter that live in other files.  They are parameters of the model, collected in one
  record: the node predicates and searches (\<^verbatim>\<open>IsOneFamily\<close>, \<^verbatim>\<open>FindStartingLiteralNode\<close>,
  \<^verbatim>\<open>ComputeMinLength\<close>, \<^verbatim>\<open>GetSetChars\<close> with the capacity of the buffer handed in, ...), the renderers of runes and strings (\<^verbatim>\<open>getRuneSliceLiteral\<close>,
  \<^verbatim>\<open>getRuneLiteralParams\<close>, the verbs \<^verbatim>\<open>%q\<close> of a rune as \<open>quoteRune\<close> and \<^verbatim>\<open>%#v\<close> of a string as
  \<open>quoteString\<close>, the conversions \<^verbatim>\<open>string(i)\<close> as \<open>runeString\<close> and \<^verbatim>\<open>string(runes)\<close> as
  \<open>runesString\<close>, \<^verbatim>\<open>%s\<close> of a string pointer as \<open>ptrString\<close>, \<^verbatim>\<open>%v\<close> of a node type as
  \<open>nodeTypeString\<close>), \<^verbatim>\<open>fmt.Sprintf\<close> applied to a format computed at run time and one string
  as \<open>Sprintf1\<close>, and the expression builders \<^verbatim>\<open>emitMatchCharacterClass\<close> and
  \<^verbatim>\<open>emitIndexOfChars\<close>, which return the expression they build.
\<close>

record externs =
  IsOneFamily :: "RegexNode \<Rightarrow> bool"
  IsNotoneFamily :: "RegexNode \<Rightarrow> bool"
  IsSetFamily :: "RegexNode \<Rightarrow> bool"
  FindStartingLiteralNode :: "RegexNode \<Rightarrow> bool \<Rightarrow> RegexNode option"
  FirstCharOfOneOrMulti :: "RegexNode \<Rightarrow> rune"
  ComputeMinLength :: "RegexNode \<Rightarrow> int"
  GetSetChars :: "CharSet \<Rightarrow> nat \<Rightarrow> rune list"
  SetString :: "CharSet \<Rightarrow> string"
  Description :: "RegexNode \<Rightarrow> string"
  TryGetJoinableLengthCheckChildRange :: "RegexNode \<Rightarrow> nat \<Rightarrow> (int \<times> nat) option"
  TryGetOrdinalCaseInsensitiveString :: "RegexNode \<Rightarrow> nat \<Rightarrow> nat \<Rightarrow> bool \<Rightarrow> (nat \<times> string) option"
  getRuneSliceLiteral :: "rune list \<Rightarrow> string"
  getRuneLiteralParams :: "rune list \<Rightarrow> string"
  emitMatchCharacterClass :: "CharSet \<Rightarrow> bool \<Rightarrow> string \<Rightarrow> string"
  emitIndexOfChars :: "rune list \<Rightarrow> bool \<Rightarrow> string \<Rightarrow> string"
  quoteRune :: "rune \<Rightarrow> string"
  quoteString :: "string \<Rightarrow> string"
  runeString :: "int \<Rightarrow> string"
  runesString :: "rune list \<Rightarrow> string"
  ptrString :: "string \<Rightarrow> string"
  nodeTypeString :: "NodeType \<Rightarrow> string"
  Sprintf1 :: "string \<Rightarrow> string \<Rightarrow> string"

section \<open>Labels, stack state and length checks\<close>

definition emitMarkLabel :: "string \<Rightarrow> regexpData \<Rightarrow> regexpData" where
  "emitMarkLabel label rm =
     (let rm = rm\<lparr>emittedLabels := emittedLabels rm @ [label]\<rparr>
      in writeLine (label @ '':'') rm)"

definition emitCaseGoto :: "string \<Rightarrow> string \<Rightarrow> regexpData \<Rightarrow> regexpData" where
  "emitCaseGoto clause label rm = emitExecuteGoto label (writeLine clause rm)"

definition createStackCookie :: int where
  "createStackCookie = 0"

definition emitStackCookieValidate :: "int \<Rightarrow> regexpData \<Rightarrow> regexpData" where
  "emitStackCookieValidate stackCookie rm = rm"


definition emitStackPop :: "int \<Rightarrow> string list \<Rightarrow> regexpData \<Rightarrow> regexpData" where
  "emitStackPop stackCookie args rm = fold (\<lambda>arg. writeLine (arg @ '' = r.StackPop()'')) args rm"

text \<open>\<^verbatim>\<open>strings.Join\<close>.\<close>

fun join :: "string \<Rightarrow> string list \<Rightarrow> string" where
  "join sep [] = []"
| "join sep [x] = x"
| "join sep (x # y # ys) = x @ sep @ join sep (y # ys)"

definition emitStackPush :: "int \<Rightarrow> string list \<Rightarrow> regexpData \<Rightarrow> regexpData" where
  "emitStackPush stackCookie args rm =
     (case args of
        [a] \<Rightarrow> writeLine (''r.StackPush('' @ a @ '')'') rm
      | [a, b] \<Rightarrow> writeLine (''r.StackPush2('' @ a @ '', '' @ b @ '')'') rm
      | [a, b, c] \<Rightarrow> writeLine (''r.StackPush3('' @ a @ '', '' @ b @ '', '' @ c @ '')'') rm
      | _ \<Rightarrow> writeLine (''r.StackPushN('' @ join '', '' args @ '')'') rm)"

text \<open>The sum of a constant and a local; the local is a string pointer in the Go code and is
  formatted as such.\<close>

definition sum :: "externs \<Rightarrow> int \<Rightarrow> string option \<Rightarrow> string" where
  "sum X constant local =
     (case local of
        None \<Rightarrow> Itoa constant
      | Some l \<Rightarrow> if constant = 0 then l else Itoa constant @ '' + '' @ ptrString X l)"

definition spanLengthCheck :: "externs \<Rightarrow> regexpData \<Rightarrow> int \<Rightarrow> string option \<Rightarrow> string" where
  "spanLengthCheck X rm requiredLength dynamicRequiredLength =
     (if dynamicRequiredLength = None \<and> sliceStaticPos rm + requiredLength = 1
      then ''len('' @ sliceSpan rm @ '') == 0''
      else ''len('' @ sliceSpan rm @ '') < '' @ sum X (sliceStaticPos rm + requiredLength) dynamicRequiredLength)"

definition emitSpanLengthCheck :: "externs \<Rightarrow> int \<Rightarrow> string option \<Rightarrow> regexpData \<Rightarrow> regexpData" where
  "emitSpanLengthCheck X requiredLength dynamicRequiredLength rm =
     (let rm = writeLine (''if '' @ spanLengthCheck X rm requiredLength dynamicRequiredLength @ '' {'') rm;
          rm = emitExecuteGoto (doneLabel rm) rm
      in writeLine ''}'' rm)"

text \<open>A comparison for whether the iteration count is less than the upper bound.\<close>

definition countIsLessThan :: "string \<Rightarrow> int \<Rightarrow> string" where
  "countIsLessThan count exclusiveUpper =
     (if exclusiveUpper = 1 then count @ '' == 0''
      else count @ '' < '' @ Itoa exclusiveUpper)"

definition emitTimeoutCheckIfNeeded :: "regexpData \<Rightarrow> regexpData" where
  "emitTimeoutCheckIfNeeded rm = rm"

definition mapCaptureNumber :: "int \<Rightarrow> (int \<rightharpoonup> int) option \<Rightarrow> int" where
  "mapCaptureNumber capNum caps =
     (if capNum = - 1 then - 1
      else case caps of
             Some m \<Rightarrow> (case m capNum of Some v \<Rightarrow> v | None \<Rightarrow> 0)
           | None \<Rightarrow> capNum)"



section \<open>Strings and anchors\<close>

definition emitExecuteMultiCharString ::
  "externs \<Rightarrow> rune list \<Rightarrow> bool \<Rightarrow> bool \<Rightarrow> bool \<Rightarrow> regexpData \<Rightarrow> regexpData" where
  "emitExecuteMultiCharString X str emitLengthCheck clauseOnly rightToLeft rm =
     (if rightToLeft then
        (let rm = writeLine (''if pos - '' @ (Itoa (int (length str))) @ '' >= r.Runtextlen {'') rm;
             rm = emitExecuteGoto (doneLabel rm) rm;
             rm = writeLine ''}\<newline>'' rm;
             rm = writeLine (''for i:=0; i < '' @ (Itoa (int (length str))) @ ''; i++ {\<newline>'' @ tabs 6 @ ''pos--\<newline>'' @ tabs 6 @ ''if r.Runtext[pos] != '' @ (getRuneSliceLiteral X str) @ ''['' @ (Itoa (int (length str))) @ '' - i] {'') rm;
             rm = emitExecuteGoto (doneLabel rm) rm
         in writeLine ''}\<newline>}'' rm)
      else
        (let sourceSpan = (if sliceStaticPos rm > 0
                           then (sliceSpan rm) @ ''['' @ (Itoa (sliceStaticPos rm)) @ '':]''
                           else sliceSpan rm);
             clause = ''!helpers.StartsWith('' @ sourceSpan @ '', '' @ (getRuneSliceLiteral X str) @ '')'';
             rm = (if clauseOnly then writeText clause rm
                   else (let rm = writeLine (''if '' @ clause @ '' {'') rm;
                             rm = emitExecuteGoto (doneLabel rm) rm
                         in writeLine ''}'' rm))
         in rm\<lparr>sliceStaticPos := sliceStaticPos rm + int (length str)\<rparr>))"


definition emitExecuteAnchors :: "RegexNode \<Rightarrow> regexpData \<Rightarrow> regexpData" where
  "emitExecuteAnchors node rm =
     (if T node = NtBeginning \<or> T node = NtStart then
        (if sliceStaticPos rm > 0 then emitExecuteGoto (doneLabel rm) rm
         else
           (let rm = (if T node = NtBeginning then writeLine ''if pos != 0 {'' rm
                      else writeLine ''if pos != r.Runtextstart {'' rm);
                rm = emitExecuteGoto (doneLabel rm) rm
            in writeLine ''}'' rm))
      else if T node = NtBol then
        (let rm = (if sliceStaticPos rm > 0
                   then writeLine (''if '' @ (sliceSpan rm) @ ''['' @ (Itoa (sliceStaticPos rm)) @ ''-1] != '' @ [CHR 0x27] @ [CHR 0x5C] @ ''n' {'') rm
                   else writeLine (''if pos > 0 && r.Runtext[pos-1] != '' @ [CHR 0x27] @ [CHR 0x5C] @ ''n' {'') rm);
             rm = emitExecuteGoto (doneLabel rm) rm
         in writeLine ''}'' rm)
      else if T node = NtEnd then
        (let rm = (if sliceStaticPos rm > 0
                   then writeLine (''if '' @ (Itoa (sliceStaticPos rm)) @ '' < len('' @ (sliceSpan rm) @ '') {'') rm
                   else writeLine ''if pos < r.Runtextend {'' rm);
             rm = emitExecuteGoto (doneLabel rm) rm
         in writeLine ''}'' rm)
      else if T node = NtEndZ then
        (let rm = (if sliceStaticPos rm > 0
                   then writeLine (''if len('' @ (sliceSpan rm) @ '') > '' @ (Itoa (sliceStaticPos rm + 1)) @ '' || (len('' @ (sliceSpan rm) @ '') > '' @ (Itoa (sliceStaticPos rm)) @ '' && '' @ (sliceSpan rm) @ ''['' @ (Itoa (sliceStaticPos rm)) @ ''] != '' @ [CHR 0x27] @ [CHR 0x5C] @ ''n') {'') rm
                   else writeLine (''if (pos < r.Runtextend - 1) || (pos < r.Runtextend && r.Runtext[pos] != '' @ [CHR 0x27] @ [CHR 0x5C] @ ''n') {'') rm);
             rm = emitExecuteGoto (doneLabel rm) rm
         in writeLine ''}'' rm)
      else if T node = NtEol then
        (let rm = (if sliceStaticPos rm > 0
                   then writeLine (''if '' @ (Itoa (sliceStaticPos rm)) @ '' < len('' @ (sliceSpan rm) @ '')) && '' @ (sliceSpan rm) @ ''['' @ (Itoa (sliceStaticPos rm)) @ ''] != '' @ [CHR 0x27] @ [CHR 0x5C] @ ''n') {'') rm
                   else writeLine (''if pos < r.Runtextend && r.Runtext[pos] != '' @ [CHR 0x27] @ [CHR 0x5C] @ ''n') {'') rm);
             rm = emitExecuteGoto (doneLabel rm) rm
         in writeLine ''}'' rm)
      else rm)"



section \<open>Capture groups\<close>

text \<open>
  \<^verbatim>\<open>emitExecuteCapture\<close>, in the two halves around the emission of the child: \<open>emitExecuteCapture_before\<close>
  is the code up to the call of the dispatcher (it returns the state and the name reserved
  for the starting position), \<open>emitExecuteCapture_after\<close> the code after it.
\<close>

definition emitExecuteCapture_before :: "regexpData \<Rightarrow> RegexNode \<Rightarrow> regexpData \<times> string" where
  "emitExecuteCapture_before rm node =
     (let uncapnum = mapCaptureNumber (N node) (Caps (Tree rm));
          isInLoop = IsInLoop (Analysis rm) node;
          rm = transferSliceStaticPosToPos False rm;
          (startingPos, rm) = reserveName ''capture_starting_pos'' rm;
          rm = (if isInLoop then writeLine (startingPos @ '' := pos'') rm
                else (let rm = addLocalDec (startingPos @ '' := 0'') rm
                      in writeLine (startingPos @ '' = pos'') rm));
          rm = writeLine [] rm;
          rm = (if uncapnum \<noteq> - 1 then
                  (let rm = writeLine (''if r.IsMatched('' @ (Itoa uncapnum) @ '') {'') rm;
                       rm = emitExecuteGoto (doneLabel rm) rm
                   in writeLine ''}\<newline>'' rm)
                else rm)
      in (rm, startingPos))"




section \<open>Atomic groups and repeaters\<close>


definition emitExecuteNonBacktrackingRepeater ::
  "emitter \<Rightarrow> regexpData \<Rightarrow> RegexNode \<Rightarrow> error + regexpData" where
  "emitExecuteNonBacktrackingRepeater emitNode rm node =
     (let rm = transferSliceStaticPosToPos False rm;
          (i, rm) = reserveName ''loop_iteration'' rm;
          rm = writeLine (''for '' @ i @ '' := i; '' @ i @ '' < '' @ (Itoa (M node)) @ ''; '' @ i @ ''++ {'') rm
      in case Children node of
           [] \<Rightarrow> Inl IndexOutOfRange
         | child # _ \<Rightarrow>
             (case emitNode rm child None True of
                Inl e \<Rightarrow> Inl e
              | Inr rm \<Rightarrow>
                  (let rm = transferSliceStaticPosToPos False rm
                   in Inr (writeLine ''}'' rm))))"


section \<open>General loops\<close>

text \<open>
  The locals of \<^verbatim>\<open>emitExecuteLoop\<close> that its later parts read.  An empty string stands for a
  name that was not reserved, as in the Go code.
\<close>

record LoopLocals =
  loop_minIterations :: int
  loop_maxIterations :: int
  loop_isAtomic :: bool
  loop_startingStackpos :: string
  loop_originalDoneLabel :: string
  loop_body :: string
  loop_endLoop :: string
  loop_iterationCount :: string
  loop_iterationMayBeEmpty :: bool
  loop_startingPos :: string
  loop_iterationFailedLabel :: string

text \<open>From the transfer of the static position to the setting of \<open>doneLabel\<close> for the body.\<close>

definition emitExecuteLoop_enter ::
  "externs \<Rightarrow> regexpData \<Rightarrow> RegexNode \<Rightarrow> RegexNode \<Rightarrow> regexpData \<times> LoopLocals" where
  "emitExecuteLoop_enter X rm node child =
     (let minIterations = M node;
          maxIterations = N node;
          stackCookie = createStackCookie;
          rm = transferSliceStaticPosToPos False rm;
          isAtomic = IsAtomicByAncestor (Analysis rm) node;
          (startingStackpos, rm) =
             (if isAtomic \<or> minIterations > 1 then
                (let (startingStackpos, rm) = reserveName ''startingStackpos'' rm;
                     rm = addLocalDec (startingStackpos @ '' := 0'') rm;
                     rm = writeLine (startingStackpos @ '' = stackpos'') rm
                 in (startingStackpos, rm))
              else ([], rm));
          originalDoneLabel = doneLabel rm;
          (body, rm) = reserveName ''LoopBody'' rm;
          (endLoop, rm) = reserveName ''LoopEnd'' rm;
          (iterationCount, rm) = reserveName ''loop_iteration'' rm;
          iterationMayBeEmpty = (ComputeMinLength X child = 0);
          (startingPos, rm) =
             (if iterationMayBeEmpty then
                (let (startingPos, rm) = reserveName ''loop_starting_pos'' rm;
                     rm = addLocalDec (iterationCount @ '', '' @ startingPos @ '' := 0, 0'') rm;
                     rm = writeLine (startingPos @ '' = pos'') rm
                 in (startingPos, rm))
              else ([], addLocalDec (iterationCount @ '' := 0'') rm));
          rm = writeLine (iterationCount @ '' = 0\<newline>'') rm;
          rm = emitMarkLabel body rm;
          rm = (if expressionHasCaptures rm \<and> iterationMayBeEmpty then
                  emitStackPush stackCookie [''r.Crawlpos()'', startingPos, ''pos''] rm
                else if expressionHasCaptures rm then
                  emitStackPush stackCookie [''r.Crawlpos()'', ''pos''] rm
                else if iterationMayBeEmpty then
                  emitStackPush stackCookie [startingPos, ''pos''] rm
                else emitStackPush stackCookie [''pos''] rm);
          rm = writeLine [] rm;
          rm = (if iterationMayBeEmpty then writeLine (startingPos @ '' = pos'') rm else rm);
          rm = writeLine (iterationCount @ ''++\<newline>'') rm;
          (iterationFailedLabel, rm) = reserveName ''LoopIterationNoMatch'' rm;
          rm = rm\<lparr>doneLabel := iterationFailedLabel\<rparr>
      in (rm,
          \<lparr>loop_minIterations = minIterations, loop_maxIterations = maxIterations,
           loop_isAtomic = isAtomic, loop_startingStackpos = startingStackpos,
           loop_originalDoneLabel = originalDoneLabel, loop_body = body, loop_endLoop = endLoop,
           loop_iterationCount = iterationCount, loop_iterationMayBeEmpty = iterationMayBeEmpty,
           loop_startingPos = startingPos, loop_iterationFailedLabel = iterationFailedLabel\<rparr>))"


text \<open>The loop condition: whether to jump back to the body for another iteration.\<close>

definition emitExecuteLoop_condition :: "LoopLocals \<Rightarrow> regexpData \<Rightarrow> regexpData" where
  "emitExecuteLoop_condition L rm =
     (let minIterations = loop_minIterations L;
          maxIterations = loop_maxIterations L;
          iterationMayBeEmpty = loop_iterationMayBeEmpty L;
          iterationCount = loop_iterationCount L;
          startingPos = loop_startingPos L;
          body = loop_body L;
          endLoop = loop_endLoop L;
          rm = writeLine [] rm
      in if maxIterations = MaxInt32 \<and> \<not> iterationMayBeEmpty then
           (let rm = writeLine ''// The loop has no upper bound. Continue iterating greedily.'' rm
            in emitExecuteGoto body rm)
         else
           (let rm =
                 (if \<not> iterationMayBeEmpty then
                    (let rm = writeLine (''// The loop has an upper bound of '' @ (Itoa maxIterations) @ ''. Continue iterating greedily if it hasn't yet been reached.'') rm
                     in writeLine (''if '' @ (countIsLessThan iterationCount maxIterations) @ '' {'') rm)
                  else if minIterations > 0 \<and> maxIterations = MaxInt32 then
                    writeLine (''// The loop has a lower bound of '' @ (Itoa minIterations) @ '' but no upper bound. Continue iterating greedily\<newline>'' @ tabs 6 @ ''// if the last iteration wasn't empty (or if it was, if the lower bound hasn't yet been reached).\<newline>'' @ tabs 6 @ ''if pos != '' @ startingPos @ '' || '' @ (countIsLessThan iterationCount minIterations) @ '' {\<newline>'' @ tabs 6) rm
                  else if minIterations > 0 then
                    writeLine (''// The loop has a lower bound of '' @ (Itoa minIterations) @ '' and an upper bound of {maxIterations}. Continue iterating\<newline>'' @ tabs 6 @ ''// greedily if the upper bound hasn't yet been reached and either the last iteration was non-empty or the\<newline>'' @ tabs 6 @ ''// lower bound hasn't yet been reached.\<newline>'' @ tabs 6 @ ''if (pos != '' @ startingPos @ '' || '' @ (countIsLessThan iterationCount minIterations) @ '') && '' @ (countIsLessThan iterationCount maxIterations) @ '' {'') rm
                  else if maxIterations = MaxInt32 then
                    writeLine (''// The loop is unbounded. Continue iterating greedily as long as the last iteration wasn't empty.\<newline>'' @ tabs 6 @ ''if pos != '' @ startingPos @ '' {'') rm
                  else
                    writeLine (''// The loop has an upper bound of '' @ (Itoa maxIterations) @ ''. Continue iterating greedily if the upper bound hasn't\<newline>'' @ tabs 6 @ ''// yet been reached (as long as the last iteration wasn't empty).\<newline>'' @ tabs 6 @ ''if pos != '' @ startingPos @ '' && '' @ (countIsLessThan iterationCount maxIterations) @ '' {'') rm);
                rm = emitExecuteGoto body rm;
                rm = writeLine ''}'' rm
            in emitExecuteGoto endLoop rm))"


text \<open>What happens when an iteration fails: the state of before the iteration is restored, and
  the minimum iteration count is validated.\<close>

definition emitExecuteLoop_iterationFailed ::
  "LoopLocals \<Rightarrow> bool \<Rightarrow> regexpData \<Rightarrow> regexpData" where
  "emitExecuteLoop_iterationFailed L childBacktracks rm =
     (let minIterations = loop_minIterations L;
          iterationCount = loop_iterationCount L;
          startingPos = loop_startingPos L;
          startingStackpos = loop_startingStackpos L;
          originalDoneLabel = loop_originalDoneLabel L;
          stackCookie = createStackCookie;
          rm = writeLine [] rm;
          rm = writeLine ''// The loop iteration failed. Put state back to the way it was before the iteration.'' rm;
          rm = emitMarkLabel (loop_iterationFailedLabel L) rm;
          rm = writeLine (iterationCount @ ''--\<newline>'' @ tabs 4 @ ''if '' @ iterationCount @ '' < 0 {\<newline>'' @ tabs 5 @ ''// Unable to match the remainder of the expression after exhausting the loop.'') rm;
          rm = emitExecuteGoto originalDoneLabel rm;
          rm = writeLine ''}'' rm;
          rm = (if loop_iterationMayBeEmpty L then emitStackPop 0 [''pos'', startingPos] rm
                else emitStackPop 0 [''pos''] rm);
          rm = (if expressionHasCaptures rm then emitUncaptureUntil ''r.StackPop()'' rm else rm);
          rm = emitStackCookieValidate stackCookie rm;
          rm = sliceInputSpan False rm
      in if minIterations > 0 then
           (if childBacktracks then
              (let rm = writeLine (''if '' @ iterationCount @ '' == 0 {'') rm;
                   rm = writeLine ''// No iterations have been matched to backtrack into. Fail the loop.'' rm;
                   rm = emitExecuteGoto originalDoneLabel rm;
                   rm = writeLine ''}\<newline>'' rm
               in if minIterations > 1 then
                    (let rm = writeLine (''if '' @ (countIsLessThan iterationCount minIterations) @ '' { \<newline>'' @ tabs 7 @ ''// All possible iterations have matched, but it's below the required minimum of '' @ (Itoa minIterations) @ ''.\<newline>'' @ tabs 7 @ ''// Backtrack into the prior iteration.'') rm;
                         rm = emitExecuteGoto (doneLabel rm) rm
                     in writeLine ''}\<newline>'' rm)
                  else rm)
            else
              (let rm = writeLine (''if '' @ (countIsLessThan iterationCount minIterations) @ '' {\<newline>'' @ tabs 7 @ ''// All possible iterations have matched, but it's below the required minimum of '' @ (Itoa minIterations) @ ''. Fail the loop.'' @ tabs 1 @ ''\<newline>'' @ tabs 7) rm;
                   rm = (if minIterations > 1 then writeLine (''if '' @ iterationCount @ '' != 0 {\<newline>'' @ tabs 8 @ ''// Ensure any stale backtracking state is removed.\<newline>'' @ tabs 8 @ ''stackpos = '' @ startingStackpos @ ''\<newline>'' @ tabs 7 @ ''}'') rm else rm);
                   rm = emitExecuteGoto originalDoneLabel rm
               in writeLine ''}\<newline>'' rm))
         else rm)"


text \<open>The end of the loop: the atomic exit, or the backtracking sections and, inside another
  loop, the save and restore of the loop's state on the backtracking stack.\<close>

definition emitExecuteLoop_exit ::
  "LoopLocals \<Rightarrow> RegexNode \<Rightarrow> bool \<Rightarrow> regexpData \<Rightarrow> regexpData" where
  "emitExecuteLoop_exit L node childBacktracks rm =
     (let iterationCount = loop_iterationCount L;
          startingPos = loop_startingPos L;
          startingStackpos = loop_startingStackpos L;
          originalDoneLabel = loop_originalDoneLabel L;
          endLoop = loop_endLoop L
      in if loop_isAtomic L then
           (let rm = rm\<lparr>doneLabel := originalDoneLabel\<rparr>;
                rm = emitMarkLabel endLoop rm
            in if length startingStackpos > 0
               then writeLine (''stackpos = '' @ startingStackpos @ '' // Ensure any remaining backtracking state is removed.'') rm
               else rm)
         else
           (let rm =
                 (if childBacktracks then
                    (let rm = emitExecuteGoto endLoop rm;
                         rm = writeLine [] rm;
                         (backtrack, rm) = reserveName ''LoopBacktrack'' rm;
                         rm = emitMarkLabel backtrack rm;
                         rm = emitTimeoutCheckIfNeeded rm;
                         rm = writeLine (''if '' @ iterationCount @ '' == 0 {\<newline>'' @ tabs 7 @ ''// No iterations of the loop remain to backtrack into. Fail the loop.'') rm;
                         rm = emitExecuteGoto originalDoneLabel rm;
                         rm = writeLine ''}'' rm;
                         rm = emitExecuteGoto (doneLabel rm) rm
                     in rm\<lparr>doneLabel := backtrack\<rparr>)
                  else rm);
                isInLoop = IsInLoop (Analysis rm) node;
                rm = emitMarkLabel endLoop rm
            in if isInLoop then
                 (let rm = writeLine [] rm;
                      stackCookie = createStackCookie;
                      rm = (if length startingPos > 0 \<and> length startingStackpos > 0 then
                              emitStackPush stackCookie [startingPos, startingStackpos, iterationCount] rm
                            else if length startingPos > 0 then
                              emitStackPush stackCookie [startingPos, iterationCount] rm
                            else if length startingStackpos > 0 then
                              emitStackPush stackCookie [startingStackpos, iterationCount] rm
                            else emitStackPush stackCookie [iterationCount] rm);
                      (end, rm) = reserveName ''LoopSkipBacktrack'' rm;
                      rm = emitExecuteGoto end rm;
                      rm = writeLine [] rm;
                      (backtrack, rm) = reserveName ''LoopBacktrack'' rm;
                      rm = emitMarkLabel backtrack rm;
                      rm = (if length startingPos > 0 \<and> length startingStackpos > 0 then
                              emitStackPop stackCookie [iterationCount, startingPos, startingPos] rm
                            else if length startingPos > 0 then
                              emitStackPop stackCookie [iterationCount, startingPos] rm
                            else if length startingStackpos > 0 then
                              emitStackPop stackCookie [iterationCount, startingStackpos] rm
                            else emitStackPop stackCookie [iterationCount] rm);
                      rm = emitTimeoutCheckIfNeeded rm;
                      rm = emitExecuteGoto (doneLabel rm) rm;
                      rm = writeLine [] rm;
                      rm = rm\<lparr>doneLabel := backtrack\<rparr>
                  in emitMarkLabel end rm)
               else rm))"

definition emitExecuteLoop ::
  "externs \<Rightarrow> emitter \<Rightarrow> regexpData \<Rightarrow> RegexNode \<Rightarrow> error + regexpData" where
  "emitExecuteLoop X emitNode rm node =
     (case Children node of
        [] \<Rightarrow> Inl IndexOutOfRange
      | child # _ \<Rightarrow>
          (let minIterations = M node;
               maxIterations = N node
           in if minIterations = maxIterations \<and> minIterations = 0 then Inr rm
              else if minIterations = maxIterations \<and> minIterations = 1 then
                emitNode rm child None True
              else if minIterations = maxIterations \<and> minIterations > 1
                      \<and> \<not> MayBacktrack (Analysis rm) child then
                emitExecuteNonBacktrackingRepeater emitNode rm node
              else
                (let (rm, L) = emitExecuteLoop_enter X rm node child
                 in case emitNode rm child None True of
                      Inl e \<Rightarrow> Inl e
                    | Inr rm \<Rightarrow>
                        (let rm = writeLine [] rm;
                             rm = transferSliceStaticPosToPos False rm;
                             childBacktracks = (doneLabel rm \<noteq> loop_iterationFailedLabel L);
                             rm = emitExecuteLoop_condition L rm;
                             rm = emitExecuteLoop_iterationFailed L childBacktracks rm
                         in Inr (emitExecuteLoop_exit L node childBacktracks rm)))))"


section \<open>Single characters\<close>








section \<open>Single-character loops with backtracking\<close>


section \<open>Node descriptions\<close>












section \<open>Concatenations\<close>








section \<open>Alternations\<close>












text \<open>The locals of the general strategy that its loop over the branches reads.\<close>

record AlternationLocals =
  alt_isAtomic :: bool
  alt_originalDoneLabel :: string
  alt_matchLabel :: string
  alt_startingPos :: string
  alt_startingSliceStaticPos :: int
  alt_startingCapturePos :: string
  alt_currentBranch :: string
  alt_numChildren :: nat





section \<open>The node dispatcher\<close>







section \<open>Top-level procedure\<close>

definition emitExecute :: "emitter \<Rightarrow> regexpData \<Rightarrow> error + regexpData" where
  "emitExecute emitNode rm =
     (let rm = writeLine (''func ('' @ GeneratedName rm @ ''_Engine) Execute(r *regexp2.Runner) error {'') rm;
          rtl = (rmOptions rm AND RightToLeft \<noteq> 0)
      in case Children (Root (Tree rm)) of
           [] \<Rightarrow> Inl IndexOutOfRange
         | root # _ \<Rightarrow>
             if T root = NtEmpty then
               (let rm = writeLine ''// The pattern matches the empty string'' rm;
                    rm = writeLine ''var pos = r.Runtextpos'' rm;
                    rm = writeLine ''r.Capture(0, pos, pos)'' rm;
                    rm = writeLine ''return nil'' rm
                in Inr (writeLine ''}\<newline>'' rm))
             else if T root = NtNothing then
               (let rm = writeLine ''return nil'' rm
                in Inr (writeLine ''}\<newline>'' rm))
             else if T root = NtMulti \<or> T root = NtOne \<or> T root = NtNotone \<or> T root = NtSet then
               (let op = (if rtl then ''-'' else ''+'');
                    jmp = (if T root = NtMulti then int (length (Str root)) else 1);
                    rm = writeLine ''// the search in findFirstChar did the entire match'' rm;
                    rm = writeLine ''var start = r.Runtextpos'' rm;
                    rm = writeLine (''var end = r.Runtextpos '' @ op @ '' '' @ Itoa jmp) rm;
                    rm = writeLine ''r.Runtextpos = end'' rm;
                    rm = writeLine ''r.Capture(0, start, end)'' rm;
                    rm = writeLine ''return nil'' rm
                in Inr (writeLine ''}\<newline>'' rm))
             else
               (let rm = rm\<lparr>usedNames := (\<lambda>_. 0)\<rparr>;
                    node = root;
                    oldOut = out rm;
                    rm = rm\<lparr>out := []\<rparr>;
                    rm = rm\<lparr>sliceSpan := ''slice''\<rparr>;
                    rm = writeLine (''pos := r.Runtextpos\<newline>'' @ tabs 3 @ ''matchStart := pos\<newline>'' @ tabs 3) rm;
                    rm = rm\<lparr>sliceStaticPos := 0\<rparr>;
                    rm = sliceInputSpan True rm;
                    rm = writeLine [] rm;
                    (l, rm) = reserveName ''NoMatch'' rm;
                    rm = rm\<lparr>doneLabel := l\<rparr>;
                    rm = rm\<lparr>topLevelDoneLabel := doneLabel rm\<rparr>;
                    rm = rm\<lparr>expressionHasCaptures := MayContainCapture (Analysis rm) node\<rparr>
                in case emitNode rm node None True of
                     Inl e \<Rightarrow> Inl e
                   | Inr rm \<Rightarrow>
                       (let rm = writeLine ''\<newline>// The input matched.'' rm;
                            rm = (if sliceStaticPos rm > 0 then emitAddStmt ''pos'' (sliceStaticPos rm) rm else rm);
                            rm = writeLine (''r.Runtextpos = pos\<newline>'' @ tabs 3 @ ''r.Capture(0, matchStart, pos)\<newline>''
                                            @ tabs 3 @ ''return nil'') rm;
                            buf = out rm;
                            rm = rm\<lparr>out := oldOut\<rparr>;
                            rm = fold writeLine (additionalDeclarations rm) rm;
                            rm = rm\<lparr>additionalDeclarations := []\<rparr>;
                            rm = rm\<lparr>out := out rm @ buf\<rparr>
                        in Inr (writeLine ''}\<newline>'' rm))))"

section \<open>The text of the recurring statements\<close>

text \<open>
  Names for what the small emitters write, used to state what the larger ones write:
  the lines of a jump to a label (the failure epilogue for the top-level label, a
  \<^verbatim>\<open>goto\<close> otherwise), of the addition of a constant to a variable, of the transfer of
  the static position, and of a push on the backtracking stack.
\<close>

definition jumpLines :: "string \<Rightarrow> bool \<Rightarrow> string \<Rightarrow> string list" where
  "jumpLines topLevel hasCaptures label =
     (if label = topLevel then
        (if hasCaptures then [''r.UncaptureUntil(0)\<newline>''] else [])
        @ [''return nil // The input didn't match.\<newline>'']
      else [''goto '' @ label @ ''\<newline>''])"

definition addStmtLines :: "string \<Rightarrow> int \<Rightarrow> string list" where
  "addStmtLines variable v =
     (if v = 0 then []
      else if v = 1 then [variable @ ''++\<newline>'']
      else if v = - 1 then [variable @ ''--\<newline>'']
      else if v > 0 then [variable @ '' += '' @ Itoa v @ ''\<newline>'']
      else [variable @ '' -= '' @ Itoa (- v) @ ''\<newline>''])"

definition gotoLines :: "regexpData \<Rightarrow> string \<Rightarrow> string list" where
  "gotoLines rm label = jumpLines (topLevelDoneLabel rm) (expressionHasCaptures rm) label"

definition sliceLine :: "string \<Rightarrow> string" where
  "sliceLine span = span @ '' = r.Runtext[pos:]\<newline>''"

definition transferLines :: "string \<Rightarrow> int \<Rightarrow> bool \<Rightarrow> string list" where
  "transferLines span staticPos force =
     (if staticPos > 0 then addStmtLines ''pos'' staticPos @ [sliceLine span]
      else if force then [sliceLine span]
      else [])"

definition pushLine :: "string list \<Rightarrow> string" where
  "pushLine args =
     (case args of
        [a] \<Rightarrow> ''r.StackPush('' @ a @ '')''
      | [a, b] \<Rightarrow> ''r.StackPush2('' @ a @ '', '' @ b @ '')''
      | [a, b, c] \<Rightarrow> ''r.StackPush3('' @ a @ '', '' @ b @ '', '' @ c @ '')''
      | _ \<Rightarrow> ''r.StackPushN('' @ join '', '' args @ '')'') @ ''\<newline>''"

definition popLines :: "string list \<Rightarrow> string list" where
  "popLines args = map (\<lambda>arg. arg @ '' = r.StackPop()\<newline>'') args"

section \<open>The fields an emission does not change\<close>

text \<open>
  The emitters of the nodes read the name of the procedure, the options, the tree, the
  analysis, the name of the slice variable, the top-level failure label and the flag
  \<open>expressionHasCaptures\<close>, and never assign them: only \<^verbatim>\<open>emitExecute\<close> does, before it
  calls the dispatcher.  \<open>sameConfig rm rm'\<close> says that two states agree on these fields.
\<close>

definition sameConfig :: "regexpData \<Rightarrow> regexpData \<Rightarrow> bool" where
  "sameConfig rm rm' =
     (GeneratedName rm' = GeneratedName rm \<and> rmOptions rm' = rmOptions rm \<and> Tree rm' = Tree rm
      \<and> Analysis rm' = Analysis rm \<and> sliceSpan rm' = sliceSpan rm
      \<and> topLevelDoneLabel rm' = topLevelDoneLabel rm
      \<and> expressionHasCaptures rm' = expressionHasCaptures rm)"

section \<open>When an alternation may be a switch\<close>






section \<open>Properties that an emission keeps\<close>


definition okR :: "('a \<Rightarrow> bool) \<Rightarrow> error + 'a \<Rightarrow> bool" where
  "okR P r = (case r of Inl e \<Rightarrow> True | Inr x \<Rightarrow> P x)"

text \<open>
  A state \<open>rm\<close> extends a state \<open>rm0\<close> when its output starts with the output of \<open>rm0\<close> and
  the two agree on the fields an emission does not change.
\<close>

definition extends :: "regexpData \<Rightarrow> regexpData \<Rightarrow> bool" where
  "extends rm0 rm = (prefix (out rm0) (out rm) \<and> sameConfig rm0 rm)"


text \<open>
  The two names the boilerplate for captures is made of are \<^verbatim>\<open>UncaptureUntil\<close> and
  \<^verbatim>\<open>Crawlpos\<close>.  \<open>avoids w s\<close> says that from no position of \<open>s\<close> on does the text agree with
  \<open>w\<close> as far as both go: \<open>w\<close> does not occur in \<open>s\<close>, and \<open>s\<close> does not end with a beginning
  of \<open>w\<close>, so that \<open>w\<close> does not come about either when more text is appended.  A text is
  \<open>plain\<close> when it avoids both names.
\<close>

fun avoids :: "string \<Rightarrow> string \<Rightarrow> bool" where
  "avoids w [] = True"
| "avoids w (c # cs) = (\<not> prefix w (c # cs) \<and> \<not> prefix (c # cs) w \<and> avoids w cs)"

definition plain :: "string \<Rightarrow> bool" where
  "plain s = (avoids ''UncaptureUntil'' s \<and> avoids ''Crawlpos'' s)"

text \<open>
  A state of an emission without captures: the flag \<open>expressionHasCaptures\<close> is off, and what
  has been written so far, the declarations recorded, and the names the emitters go on to
  write (of the slice variable, of the label to jump to on failure, of the groups) are plain.
\<close>

definition clean :: "regexpData \<Rightarrow> bool" where
  "clean rm =
     (\<not> expressionHasCaptures rm \<and> plain (concat (out rm)) \<and> plain (sliceSpan rm)
      \<and> plain (doneLabel rm) \<and> list_all plain (additionalDeclarations rm)
      \<and> list_all plain (Caplist (Tree rm)))"

text \<open>
  What is assumed of the collaborators for a property \<open>P\<close> of texts: the text they render
  has it, and what they build around a text that has it has it.
\<close>

definition textExterns :: "(string \<Rightarrow> bool) \<Rightarrow> externs \<Rightarrow> bool" where
  "textExterns P X =
     ((\<forall>node. P (Description X node))
      \<and> (\<forall>set. P (SetString X set))
      \<and> (\<forall>rs. P (getRuneSliceLiteral X rs))
      \<and> (\<forall>rs. P (getRuneLiteralParams X rs))
      \<and> (\<forall>r. P (quoteRune X r))
      \<and> (\<forall>i. P (runeString X i))
      \<and> (\<forall>rs. P (runesString X rs))
      \<and> (\<forall>s. P (ptrString X s))
      \<and> (\<forall>t. P (nodeTypeString X t))
      \<and> (\<forall>s. P s \<longrightarrow> P (quoteString X s))
      \<and> (\<forall>set negate expr. P expr \<longrightarrow> P (emitMatchCharacterClass X set negate expr))
      \<and> (\<forall>rs negate span. P span \<longrightarrow> P (emitIndexOfChars X rs negate span))
      \<and> (\<forall>format arg. P format \<longrightarrow> P arg \<longrightarrow> P (Sprintf1 X format arg))
      \<and> (\<forall>node i exclusiveEnd d n s.
            TryGetOrdinalCaseInsensitiveString X node i exclusiveEnd d = Some (n, s) \<longrightarrow> P s))"

text \<open>
  The properties of the values the emitters pass on next to the state, from a property \<open>S\<close>
  of states and a property \<open>P\<close> of texts: of an optional text, of what
  \<^verbatim>\<open>tryEmitExecuteIndexOf\<close> returns, of a name with a state, of the locals of a loop and of
  an alternation (where \<open>C\<close> is the property of the name of the local for the crawl
  position), of the labels of the branches of an alternation, and of the state of the loops
  of a concatenation with the description to write next.
\<close>

definition optOk :: "(string \<Rightarrow> bool) \<Rightarrow> string option \<Rightarrow> bool" where
  "optOk P d = (case d of None \<Rightarrow> True | Some s \<Rightarrow> P s)"

definition indexOfOk :: "(string \<Rightarrow> bool) \<Rightarrow> (int \<times> string) option \<Rightarrow> bool" where
  "indexOfOk P r = (case r of None \<Rightarrow> True | Some (n, s) \<Rightarrow> P s)"












section \<open>Example inputs\<close>

definition exampleSet :: CharSet where
  "exampleSet = \<lparr>IsAnything = False, IsNegated = False, GetIfNRanges1 = []\<rparr>"

definition exampleAnalysis :: AnalysisResults where
  "exampleAnalysis = \<lparr>MayBacktrack = (\<lambda>_. False), IsAtomicByAncestor = (\<lambda>_. False),
                       IsInLoop = (\<lambda>_. False), MayContainCapture = (\<lambda>_. False)\<rparr>"

definition exampleTree :: "RegexNode \<Rightarrow> RegexTree" where
  "exampleTree root =
     \<lparr>Root = RegexNode NtCapture 0 [root] 0 [] exampleSet 0 (- 1),
      Caps = None, Caplist = [], Capnumlist = None, Captop = 3,
      FindOptimizations = \<lparr>FindMode = OtherFindMode, LiteralAfterLoop_LoopNode = None\<rparr>\<rparr>"

text \<open>The state in which \<^verbatim>\<open>emitExecute\<close> hands the root's child to the dispatcher, with a given
  static position.\<close>

definition exampleState :: "RegexNode \<Rightarrow> int \<Rightarrow> regexpData" where
  "exampleState root sp =
     \<lparr>out = [], GeneratedName = ''Example'', rmOptions = 0, Tree = exampleTree root,
      Analysis = exampleAnalysis, usedNames = (\<lambda>_. 0)(''NoMatch'' := 1),
      additionalDeclarations = [], sliceSpan = ''slice'', sliceStaticPos = sp,
      doneLabel = ''NoMatch'', topLevelDoneLabel = ''NoMatch'',
      expressionHasCaptures = False, emittedLabels = [], usedLabels = []\<rparr>"

definition emptyNode :: RegexNode where
  "emptyNode = RegexNode NtEmpty 0 [] 0 [] exampleSet 0 0"

text \<open>Stand-ins for the collaborators, for evaluating the emitters on concrete trees: runes
  are rendered for the lower-case letters only, nodes of the one, notone and set families
  are recognised by their kind, and the searches look at the node itself and at the first
  child of a concatenation, capture or atomic group.\<close>

definition exampleChar :: "rune \<Rightarrow> char" where
  "exampleChar r = (if 97 \<le> r \<and> r \<le> 122 then ''abcdefghijklmnopqrstuvwxyz'' ! nat (r - 97) else CHR ''?'')"

fun exampleStartingLiteral :: "RegexNode \<Rightarrow> RegexNode option" where
  "exampleStartingLiteral (RegexNode t opts cs ch s st m n) =
     (if t \<in> {NtOne, NtNotone, NtSet, NtMulti} then Some (RegexNode t opts cs ch s st m n)
      else if t \<in> {NtOneloop, NtNotoneloop, NtSetloop, NtOnelazy, NtNotonelazy, NtSetlazy} \<and> m > 0
        then Some (RegexNode t opts cs ch s st m n)
      else if t \<in> {NtConcatenate, NtCapture, NtAtomic} then
        (case cs of [] \<Rightarrow> None | c # _ \<Rightarrow> exampleStartingLiteral c)
      else None)"

fun exampleMinLength :: "RegexNode \<Rightarrow> int" where
  "exampleMinLength (RegexNode t opts cs ch s st m n) =
     (if t \<in> {NtOne, NtNotone, NtSet} then 1
      else if t = NtMulti then int (length s)
      else if t \<in> {NtOneloop, NtNotoneloop, NtSetloop, NtOnelazy, NtNotonelazy, NtSetlazy} then m
      else if t = NtConcatenate then sum_list (map exampleMinLength cs)
      else if t \<in> {NtCapture, NtAtomic} then (case cs of [] \<Rightarrow> 0 | c # _ \<Rightarrow> exampleMinLength c)
      else if t \<in> {NtLoop, NtLazyloop} then (case cs of [] \<Rightarrow> 0 | c # _ \<Rightarrow> m * exampleMinLength c)
      else 0)"

text \<open>A stand-in for \<^verbatim>\<open>fmt.Sprintf\<close> with one string argument: the first \<^verbatim>\<open>%s\<close> of the format is
  replaced by the argument.\<close>

fun exampleSprintf1 :: "string \<Rightarrow> string \<Rightarrow> string" where
  "exampleSprintf1 [] a = []"
| "exampleSprintf1 [c] a = [c]"
| "exampleSprintf1 (c # d # cs) a =
     (if c = CHR ''%'' \<and> d = CHR ''s'' then a @ cs else c # exampleSprintf1 (d # cs) a)"

definition exampleExterns :: externs where
  "exampleExterns =
     \<lparr>IsOneFamily = (\<lambda>n. T n \<in> {NtOne, NtOneloop, NtOnelazy}),
      IsNotoneFamily = (\<lambda>n. T n \<in> {NtNotone, NtNotoneloop, NtNotonelazy}),
      IsSetFamily = (\<lambda>n. T n \<in> {NtSet, NtSetloop, NtSetlazy}),
      FindStartingLiteralNode = (\<lambda>n allowZeroWidth. exampleStartingLiteral n),
      FirstCharOfOneOrMulti = (\<lambda>n. if T n = NtMulti then hd (Str n) else Ch n),
      ComputeMinLength = exampleMinLength,
      GetSetChars = (\<lambda>s capacity. case GetIfNRanges1 s of
                        [(a, b)] \<Rightarrow> if nat (b - a) < capacity then map (\<lambda>k. a + int k) [0 ..< nat (b - a + 1)] else []
                      | _ \<Rightarrow> []),
      SetString = (\<lambda>s. ''[set]''),
      Description = (\<lambda>n. ''node''),
      TryGetJoinableLengthCheckChildRange = (\<lambda>n i. None),
      TryGetOrdinalCaseInsensitiveString = (\<lambda>n i e d. None),
      getRuneSliceLiteral = (\<lambda>rs. ''[]rune('' @ [CHR 0x22] @ map exampleChar rs @ [CHR 0x22] @ '')''),
      getRuneLiteralParams = (\<lambda>rs. join '', '' (map (\<lambda>r. [CHR 0x27, exampleChar r, CHR 0x27]) rs)),
      emitMatchCharacterClass = (\<lambda>set negate expr. (if negate then ''!'' else []) @ ''set.CharIn('' @ expr @ '')''),
      emitIndexOfChars = (\<lambda>rs negate span.
         ''helpers.IndexOfAny'' @ (if negate then ''Except'' else []) @ ''('' @ span @ '', '' @ map exampleChar rs @ '')''),
      quoteRune = (\<lambda>r. [CHR 0x27, exampleChar r, CHR 0x27]),
      quoteString = (\<lambda>s. [CHR 0x22] @ s @ [CHR 0x22]),
      runeString = (\<lambda>i. [exampleChar i]),
      runesString = map exampleChar,
      ptrString = (\<lambda>s. ''0xc000010000''),
      nodeTypeString = (\<lambda>t. ''NodeType''),
      Sprintf1 = exampleSprintf1\<rparr>"

definition multiNode :: "32 word \<Rightarrow> rune list \<Rightarrow> RegexNode" where
  "multiNode opts s = RegexNode NtMulti opts [] 0 s exampleSet 0 0"

definition oneNode :: "rune \<Rightarrow> RegexNode" where
  "oneNode c = RegexNode NtOne 0 [] c [] exampleSet 0 0"

definition anchorNode :: "NodeType \<Rightarrow> RegexNode" where
  "anchorNode t = RegexNode t 0 [] 0 [] exampleSet 0 0"

definition nothingNode :: RegexNode where
  "nothingNode = RegexNode NtNothing 0 [] 0 [] exampleSet 0 0"

text \<open>Whether the round brackets of a line are balanced.\<close>

fun balanced :: "string \<Rightarrow> nat \<Rightarrow> bool" where
  "balanced [] d = (d = 0)"
| "balanced (c # cs) d =
     (if c = CHR ''('' then balanced cs (Suc d)
      else if c = CHR '')'' then (d > 0 \<and> balanced cs (d - 1))
      else balanced cs d)"

text \<open>A balancing group that captures group 2 and uncaptures group 1, around the character \<^verbatim>\<open>a\<close>.\<close>

definition balancingNode :: RegexNode where
  "balancingNode = RegexNode NtCapture 0 [oneNode 97] 0 [] exampleSet 2 1"

text \<open>The loop \<^verbatim>\<open>(?:a*){2,}\<close>, and a state for it in which the analysis says that the loop is
  inside another loop, that nodes may backtrack and that no node is atomic.\<close>

definition oneloopNode :: "rune \<Rightarrow> int \<Rightarrow> int \<Rightarrow> RegexNode" where
  "oneloopNode c m n = RegexNode NtOneloop 0 [] c [] exampleSet m n"

definition loopNode :: "int \<Rightarrow> int \<Rightarrow> RegexNode \<Rightarrow> RegexNode" where
  "loopNode m n child = RegexNode NtLoop 0 [child] 0 [] exampleSet m n"

definition inLoopAnalysis :: AnalysisResults where
  "inLoopAnalysis = \<lparr>MayBacktrack = (\<lambda>_. True), IsAtomicByAncestor = (\<lambda>_. False),
                      IsInLoop = (\<lambda>_. True), MayContainCapture = (\<lambda>_. False)\<rparr>"

definition exampleLoopLocals :: LoopLocals where
  "exampleLoopLocals =
     \<lparr>loop_minIterations = 2, loop_maxIterations = 5, loop_isAtomic = False,
      loop_startingStackpos = ''startingStackpos'', loop_originalDoneLabel = ''NoMatch'',
      loop_body = ''LoopBody'', loop_endLoop = ''LoopEnd'', loop_iterationCount = ''loop_iteration'',
      loop_iterationMayBeEmpty = True, loop_startingPos = ''loop_starting_pos'',
      loop_iterationFailedLabel = ''LoopIterationNoMatch''\<rparr>"





section \<open>What the small emitters do to the state\<close>

text \<open>
  Each small emitter appends to the output and leaves the other fields alone, except where
  its purpose is to change one.  The lemmas of this section say so field by field; the
  properties of the larger emitters are derived from them.
\<close>

lemma writeText_fields [simp]:
  "GeneratedName (writeText s rm) = GeneratedName rm"
  "rmOptions (writeText s rm) = rmOptions rm"
  "Tree (writeText s rm) = Tree rm"
  "Analysis (writeText s rm) = Analysis rm"
  "usedNames (writeText s rm) = usedNames rm"
  "additionalDeclarations (writeText s rm) = additionalDeclarations rm"
  "sliceSpan (writeText s rm) = sliceSpan rm"
  "sliceStaticPos (writeText s rm) = sliceStaticPos rm"
  "doneLabel (writeText s rm) = doneLabel rm"
  "topLevelDoneLabel (writeText s rm) = topLevelDoneLabel rm"
  "expressionHasCaptures (writeText s rm) = expressionHasCaptures rm"
  "out (writeText s rm) = out rm @ [s]"
  by (simp_all add: writeText_def)

lemma writeLine_fields [simp]:
  "GeneratedName (writeLine s rm) = GeneratedName rm"
  "rmOptions (writeLine s rm) = rmOptions rm"
  "Tree (writeLine s rm) = Tree rm"
  "Analysis (writeLine s rm) = Analysis rm"
  "usedNames (writeLine s rm) = usedNames rm"
  "additionalDeclarations (writeLine s rm) = additionalDeclarations rm"
  "sliceSpan (writeLine s rm) = sliceSpan rm"
  "sliceStaticPos (writeLine s rm) = sliceStaticPos rm"
  "doneLabel (writeLine s rm) = doneLabel rm"
  "topLevelDoneLabel (writeLine s rm) = topLevelDoneLabel rm"
  "expressionHasCaptures (writeLine s rm) = expressionHasCaptures rm"
  "out (writeLine s rm) = out rm @ [s @ ''\<newline>'']"
  by (simp_all add: writeLine_def)

lemma addLocalDec_fields [simp]:
  "GeneratedName (addLocalDec s rm) = GeneratedName rm"
  "rmOptions (addLocalDec s rm) = rmOptions rm"
  "Tree (addLocalDec s rm) = Tree rm"
  "Analysis (addLocalDec s rm) = Analysis rm"
  "usedNames (addLocalDec s rm) = usedNames rm"
  "additionalDeclarations (addLocalDec s rm) = additionalDeclarations rm @ [s]"
  "sliceSpan (addLocalDec s rm) = sliceSpan rm"
  "sliceStaticPos (addLocalDec s rm) = sliceStaticPos rm"
  "doneLabel (addLocalDec s rm) = doneLabel rm"
  "topLevelDoneLabel (addLocalDec s rm) = topLevelDoneLabel rm"
  "expressionHasCaptures (addLocalDec s rm) = expressionHasCaptures rm"
  "out (addLocalDec s rm) = out rm @ []"
  by (simp_all add: addLocalDec_def)

lemma emitAddStmt_fields [simp]:
  "GeneratedName (emitAddStmt variable v rm) = GeneratedName rm"
  "rmOptions (emitAddStmt variable v rm) = rmOptions rm"
  "Tree (emitAddStmt variable v rm) = Tree rm"
  "Analysis (emitAddStmt variable v rm) = Analysis rm"
  "usedNames (emitAddStmt variable v rm) = usedNames rm"
  "additionalDeclarations (emitAddStmt variable v rm) = additionalDeclarations rm"
  "sliceSpan (emitAddStmt variable v rm) = sliceSpan rm"
  "sliceStaticPos (emitAddStmt variable v rm) = sliceStaticPos rm"
  "doneLabel (emitAddStmt variable v rm) = doneLabel rm"
  "topLevelDoneLabel (emitAddStmt variable v rm) = topLevelDoneLabel rm"
  "expressionHasCaptures (emitAddStmt variable v rm) = expressionHasCaptures rm"
  "out (emitAddStmt variable v rm) = out rm @ addStmtLines variable v"
  by (simp_all add: emitAddStmt_def addStmtLines_def)

lemma sliceInputSpan_fields [simp]:
  "GeneratedName (sliceInputSpan declare rm) = GeneratedName rm"
  "rmOptions (sliceInputSpan declare rm) = rmOptions rm"
  "Tree (sliceInputSpan declare rm) = Tree rm"
  "Analysis (sliceInputSpan declare rm) = Analysis rm"
  "usedNames (sliceInputSpan declare rm) = usedNames rm"
  "additionalDeclarations (sliceInputSpan declare rm) = additionalDeclarations rm"
  "sliceSpan (sliceInputSpan declare rm) = sliceSpan rm"
  "sliceStaticPos (sliceInputSpan declare rm) = sliceStaticPos rm"
  "doneLabel (sliceInputSpan declare rm) = doneLabel rm"
  "topLevelDoneLabel (sliceInputSpan declare rm) = topLevelDoneLabel rm"
  "expressionHasCaptures (sliceInputSpan declare rm) = expressionHasCaptures rm"
  "out (sliceInputSpan declare rm) = out rm @ ((if declare then [''var ''] else []) @ [sliceLine (sliceSpan rm)])"
  by (simp_all add: sliceInputSpan_def sliceLine_def Let_def)

lemma transferSliceStaticPosToPos_fields [simp]:
  "GeneratedName (transferSliceStaticPosToPos force rm) = GeneratedName rm"
  "rmOptions (transferSliceStaticPosToPos force rm) = rmOptions rm"
  "Tree (transferSliceStaticPosToPos force rm) = Tree rm"
  "Analysis (transferSliceStaticPosToPos force rm) = Analysis rm"
  "usedNames (transferSliceStaticPosToPos force rm) = usedNames rm"
  "additionalDeclarations (transferSliceStaticPosToPos force rm) = additionalDeclarations rm"
  "sliceSpan (transferSliceStaticPosToPos force rm) = sliceSpan rm"
  "sliceStaticPos (transferSliceStaticPosToPos force rm) = (if sliceStaticPos rm > 0 then 0 else sliceStaticPos rm)"
  "doneLabel (transferSliceStaticPosToPos force rm) = doneLabel rm"
  "topLevelDoneLabel (transferSliceStaticPosToPos force rm) = topLevelDoneLabel rm"
  "expressionHasCaptures (transferSliceStaticPosToPos force rm) = expressionHasCaptures rm"
  "out (transferSliceStaticPosToPos force rm) = out rm @ transferLines (sliceSpan rm) (sliceStaticPos rm) force"
  by (simp_all add: transferSliceStaticPosToPos_def transferLines_def sliceLine_def Let_def)

lemma emitUncaptureUntil_fields [simp]:
  "GeneratedName (emitUncaptureUntil capturepos rm) = GeneratedName rm"
  "rmOptions (emitUncaptureUntil capturepos rm) = rmOptions rm"
  "Tree (emitUncaptureUntil capturepos rm) = Tree rm"
  "Analysis (emitUncaptureUntil capturepos rm) = Analysis rm"
  "usedNames (emitUncaptureUntil capturepos rm) = usedNames rm"
  "additionalDeclarations (emitUncaptureUntil capturepos rm) = additionalDeclarations rm"
  "sliceSpan (emitUncaptureUntil capturepos rm) = sliceSpan rm"
  "sliceStaticPos (emitUncaptureUntil capturepos rm) = sliceStaticPos rm"
  "doneLabel (emitUncaptureUntil capturepos rm) = doneLabel rm"
  "topLevelDoneLabel (emitUncaptureUntil capturepos rm) = topLevelDoneLabel rm"
  "expressionHasCaptures (emitUncaptureUntil capturepos rm) = expressionHasCaptures rm"
  "out (emitUncaptureUntil capturepos rm) = out rm @ [''r.UncaptureUntil('' @ capturepos @ '')'' @ ''\<newline>'']"
  by (simp_all add: emitUncaptureUntil_def)

lemma emitExecuteGoto_fields [simp]:
  "GeneratedName (emitExecuteGoto label rm) = GeneratedName rm"
  "rmOptions (emitExecuteGoto label rm) = rmOptions rm"
  "Tree (emitExecuteGoto label rm) = Tree rm"
  "Analysis (emitExecuteGoto label rm) = Analysis rm"
  "usedNames (emitExecuteGoto label rm) = usedNames rm"
  "additionalDeclarations (emitExecuteGoto label rm) = additionalDeclarations rm"
  "sliceSpan (emitExecuteGoto label rm) = sliceSpan rm"
  "sliceStaticPos (emitExecuteGoto label rm) = sliceStaticPos rm"
  "doneLabel (emitExecuteGoto label rm) = doneLabel rm"
  "topLevelDoneLabel (emitExecuteGoto label rm) = topLevelDoneLabel rm"
  "expressionHasCaptures (emitExecuteGoto label rm) = expressionHasCaptures rm"
  "out (emitExecuteGoto label rm) = out rm @ jumpLines (topLevelDoneLabel rm) (expressionHasCaptures rm) label"
  by (simp_all add: emitExecuteGoto_def gotoWillExitMatch_def jumpLines_def Let_def)

lemma emitMarkLabel_fields [simp]:
  "GeneratedName (emitMarkLabel label rm) = GeneratedName rm"
  "rmOptions (emitMarkLabel label rm) = rmOptions rm"
  "Tree (emitMarkLabel label rm) = Tree rm"
  "Analysis (emitMarkLabel label rm) = Analysis rm"
  "usedNames (emitMarkLabel label rm) = usedNames rm"
  "additionalDeclarations (emitMarkLabel label rm) = additionalDeclarations rm"
  "sliceSpan (emitMarkLabel label rm) = sliceSpan rm"
  "sliceStaticPos (emitMarkLabel label rm) = sliceStaticPos rm"
  "doneLabel (emitMarkLabel label rm) = doneLabel rm"
  "topLevelDoneLabel (emitMarkLabel label rm) = topLevelDoneLabel rm"
  "expressionHasCaptures (emitMarkLabel label rm) = expressionHasCaptures rm"
  "out (emitMarkLabel label rm) = out rm @ [label @ '':'' @ ''\<newline>'']"
  by (simp_all add: emitMarkLabel_def Let_def)

lemma emitCaseGoto_fields [simp]:
  "GeneratedName (emitCaseGoto clause label rm) = GeneratedName rm"
  "rmOptions (emitCaseGoto clause label rm) = rmOptions rm"
  "Tree (emitCaseGoto clause label rm) = Tree rm"
  "Analysis (emitCaseGoto clause label rm) = Analysis rm"
  "usedNames (emitCaseGoto clause label rm) = usedNames rm"
  "additionalDeclarations (emitCaseGoto clause label rm) = additionalDeclarations rm"
  "sliceSpan (emitCaseGoto clause label rm) = sliceSpan rm"
  "sliceStaticPos (emitCaseGoto clause label rm) = sliceStaticPos rm"
  "doneLabel (emitCaseGoto clause label rm) = doneLabel rm"
  "topLevelDoneLabel (emitCaseGoto clause label rm) = topLevelDoneLabel rm"
  "expressionHasCaptures (emitCaseGoto clause label rm) = expressionHasCaptures rm"
  "out (emitCaseGoto clause label rm) = out rm @ ([clause @ ''\<newline>''] @ jumpLines (topLevelDoneLabel rm) (expressionHasCaptures rm) label)"
  by (simp_all add: emitCaseGoto_def jumpLines_def)

lemma emitStackCookieValidate_fields [simp]:
  "GeneratedName (emitStackCookieValidate k rm) = GeneratedName rm"
  "rmOptions (emitStackCookieValidate k rm) = rmOptions rm"
  "Tree (emitStackCookieValidate k rm) = Tree rm"
  "Analysis (emitStackCookieValidate k rm) = Analysis rm"
  "usedNames (emitStackCookieValidate k rm) = usedNames rm"
  "additionalDeclarations (emitStackCookieValidate k rm) = additionalDeclarations rm"
  "sliceSpan (emitStackCookieValidate k rm) = sliceSpan rm"
  "sliceStaticPos (emitStackCookieValidate k rm) = sliceStaticPos rm"
  "doneLabel (emitStackCookieValidate k rm) = doneLabel rm"
  "topLevelDoneLabel (emitStackCookieValidate k rm) = topLevelDoneLabel rm"
  "expressionHasCaptures (emitStackCookieValidate k rm) = expressionHasCaptures rm"
  "out (emitStackCookieValidate k rm) = out rm @ []"
  by (simp_all add: emitStackCookieValidate_def)

lemma emitTimeoutCheckIfNeeded_fields [simp]:
  "GeneratedName (emitTimeoutCheckIfNeeded rm) = GeneratedName rm"
  "rmOptions (emitTimeoutCheckIfNeeded rm) = rmOptions rm"
  "Tree (emitTimeoutCheckIfNeeded rm) = Tree rm"
  "Analysis (emitTimeoutCheckIfNeeded rm) = Analysis rm"
  "usedNames (emitTimeoutCheckIfNeeded rm) = usedNames rm"
  "additionalDeclarations (emitTimeoutCheckIfNeeded rm) = additionalDeclarations rm"
  "sliceSpan (emitTimeoutCheckIfNeeded rm) = sliceSpan rm"
  "sliceStaticPos (emitTimeoutCheckIfNeeded rm) = sliceStaticPos rm"
  "doneLabel (emitTimeoutCheckIfNeeded rm) = doneLabel rm"
  "topLevelDoneLabel (emitTimeoutCheckIfNeeded rm) = topLevelDoneLabel rm"
  "expressionHasCaptures (emitTimeoutCheckIfNeeded rm) = expressionHasCaptures rm"
  "out (emitTimeoutCheckIfNeeded rm) = out rm @ []"
  by (simp_all add: emitTimeoutCheckIfNeeded_def)

lemma fold_writeLine_fields [simp]:
  "GeneratedName (fold (\<lambda>a. writeLine (f a)) args rm) = GeneratedName rm"
  "rmOptions (fold (\<lambda>a. writeLine (f a)) args rm) = rmOptions rm"
  "Tree (fold (\<lambda>a. writeLine (f a)) args rm) = Tree rm"
  "Analysis (fold (\<lambda>a. writeLine (f a)) args rm) = Analysis rm"
  "usedNames (fold (\<lambda>a. writeLine (f a)) args rm) = usedNames rm"
  "additionalDeclarations (fold (\<lambda>a. writeLine (f a)) args rm) = additionalDeclarations rm"
  "sliceSpan (fold (\<lambda>a. writeLine (f a)) args rm) = sliceSpan rm"
  "sliceStaticPos (fold (\<lambda>a. writeLine (f a)) args rm) = sliceStaticPos rm"
  "doneLabel (fold (\<lambda>a. writeLine (f a)) args rm) = doneLabel rm"
  "topLevelDoneLabel (fold (\<lambda>a. writeLine (f a)) args rm) = topLevelDoneLabel rm"
  "expressionHasCaptures (fold (\<lambda>a. writeLine (f a)) args rm) = expressionHasCaptures rm"
  "out (fold (\<lambda>a. writeLine (f a)) args rm) = out rm @ map (\<lambda>a. f a @ ''\<newline>'') args"
  by (induction args arbitrary: rm; simp)+

lemma emitStackPop_fields [simp]:
  "GeneratedName (emitStackPop k args rm) = GeneratedName rm"
  "rmOptions (emitStackPop k args rm) = rmOptions rm"
  "Tree (emitStackPop k args rm) = Tree rm"
  "Analysis (emitStackPop k args rm) = Analysis rm"
  "usedNames (emitStackPop k args rm) = usedNames rm"
  "additionalDeclarations (emitStackPop k args rm) = additionalDeclarations rm"
  "sliceSpan (emitStackPop k args rm) = sliceSpan rm"
  "sliceStaticPos (emitStackPop k args rm) = sliceStaticPos rm"
  "doneLabel (emitStackPop k args rm) = doneLabel rm"
  "topLevelDoneLabel (emitStackPop k args rm) = topLevelDoneLabel rm"
  "expressionHasCaptures (emitStackPop k args rm) = expressionHasCaptures rm"
  "out (emitStackPop k args rm) = out rm @ popLines args"
  by (simp_all add: emitStackPop_def popLines_def)

lemma emitStackPush_fields [simp]:
  "GeneratedName (emitStackPush k args rm) = GeneratedName rm"
  "rmOptions (emitStackPush k args rm) = rmOptions rm"
  "Tree (emitStackPush k args rm) = Tree rm"
  "Analysis (emitStackPush k args rm) = Analysis rm"
  "usedNames (emitStackPush k args rm) = usedNames rm"
  "additionalDeclarations (emitStackPush k args rm) = additionalDeclarations rm"
  "sliceSpan (emitStackPush k args rm) = sliceSpan rm"
  "sliceStaticPos (emitStackPush k args rm) = sliceStaticPos rm"
  "doneLabel (emitStackPush k args rm) = doneLabel rm"
  "topLevelDoneLabel (emitStackPush k args rm) = topLevelDoneLabel rm"
  "expressionHasCaptures (emitStackPush k args rm) = expressionHasCaptures rm"
  "out (emitStackPush k args rm) = out rm @ [pushLine args]"
  by (simp_all add: emitStackPush_def pushLine_def split: list.splits)

lemma emitSpanLengthCheck_fields [simp]:
  "GeneratedName (emitSpanLengthCheck X n d rm) = GeneratedName rm"
  "rmOptions (emitSpanLengthCheck X n d rm) = rmOptions rm"
  "Tree (emitSpanLengthCheck X n d rm) = Tree rm"
  "Analysis (emitSpanLengthCheck X n d rm) = Analysis rm"
  "usedNames (emitSpanLengthCheck X n d rm) = usedNames rm"
  "additionalDeclarations (emitSpanLengthCheck X n d rm) = additionalDeclarations rm"
  "sliceSpan (emitSpanLengthCheck X n d rm) = sliceSpan rm"
  "sliceStaticPos (emitSpanLengthCheck X n d rm) = sliceStaticPos rm"
  "doneLabel (emitSpanLengthCheck X n d rm) = doneLabel rm"
  "topLevelDoneLabel (emitSpanLengthCheck X n d rm) = topLevelDoneLabel rm"
  "expressionHasCaptures (emitSpanLengthCheck X n d rm) = expressionHasCaptures rm"
  "out (emitSpanLengthCheck X n d rm) = out rm @ ([''if '' @ spanLengthCheck X rm n d @ '' {'' @ ''\<newline>''] @ jumpLines (topLevelDoneLabel rm) (expressionHasCaptures rm) (doneLabel rm) @ [''}\<newline>''])"
  by (simp_all add: emitSpanLengthCheck_def Let_def jumpLines_def)

text \<open>Reserving a name changes the table of used names only.\<close>

lemma reserveName_fst:
  "fst (reserveName pfx rm) = (if usedNames rm pfx = 0 then pfx else pfx @ Itoa (int (usedNames rm pfx)))"
  by (simp add: reserveName_def Let_def)

lemma reserveName_snd_fields [simp]:
  "GeneratedName (snd (reserveName pfx rm)) = GeneratedName rm"
  "rmOptions (snd (reserveName pfx rm)) = rmOptions rm"
  "Tree (snd (reserveName pfx rm)) = Tree rm"
  "Analysis (snd (reserveName pfx rm)) = Analysis rm"
  "usedNames (snd (reserveName pfx rm)) = (usedNames rm)(pfx := usedNames rm pfx + 1)"
  "additionalDeclarations (snd (reserveName pfx rm)) = additionalDeclarations rm"
  "sliceSpan (snd (reserveName pfx rm)) = sliceSpan rm"
  "sliceStaticPos (snd (reserveName pfx rm)) = sliceStaticPos rm"
  "doneLabel (snd (reserveName pfx rm)) = doneLabel rm"
  "topLevelDoneLabel (snd (reserveName pfx rm)) = topLevelDoneLabel rm"
  "expressionHasCaptures (snd (reserveName pfx rm)) = expressionHasCaptures rm"
  "out (snd (reserveName pfx rm)) = out rm"
  by (simp_all add: reserveName_def Let_def)


section \<open>Rules for properties that every step preserves\<close>

text \<open>
  The emitters are chains of \<open>let\<close>s.  A property that every step of a chain preserves is
  proved of the whole chain one step at a time: each rule below takes one \<open>let\<close>, \<open>if\<close> or
  \<open>case\<close> off the term, with the state bound by a \<open>let\<close> replaced by an arbitrary state that
  has the property.
\<close>

lemma vcg_let_state:
  "I f \<Longrightarrow> (\<And>x. I x \<Longrightarrow> I (g x)) \<Longrightarrow> I (Let f g)"
  for f :: regexpData
  by simp

lemma vcg_let_bool:
  "(\<And>x. I (g x)) \<Longrightarrow> I (Let f g)"
  for f :: "bool"
  by simp

lemma vcg_let_int:
  "(\<And>x. I (g x)) \<Longrightarrow> I (Let f g)"
  for f :: "int"
  by simp

lemma vcg_let_nat:
  "(\<And>x. I (g x)) \<Longrightarrow> I (Let f g)"
  for f :: "nat"
  by simp

lemma vcg_let_string:
  "(\<And>x. I (g x)) \<Longrightarrow> I (Let f g)"
  for f :: "string"
  by simp

lemma vcg_let_string_option:
  "(\<And>x. I (g x)) \<Longrightarrow> I (Let f g)"
  for f :: "string option"
  by simp

lemma vcg_let_RegexNode_option:
  "(\<And>x. I (g x)) \<Longrightarrow> I (Let f g)"
  for f :: "RegexNode option"
  by simp

lemma vcg_let_LoopLocals:
  "(\<And>x. I (g x)) \<Longrightarrow> I (Let f g)"
  for f :: "LoopLocals"
  by simp

lemma vcg_let_AlternationLocals:
  "(\<And>x. I (g x)) \<Longrightarrow> I (Let f g)"
  for f :: "AlternationLocals"
  by simp

lemma vcg_let_name:
  "I (snd f) \<Longrightarrow> (\<And>a x. I x \<Longrightarrow> I (g a x)) \<Longrightarrow> I (Let f (case_prod g))"
  for f :: "string \<times> regexpData"
  by (cases f) simp

lemma vcg_if:
  "I (a) \<Longrightarrow> I (b) \<Longrightarrow> I (if c then a else b)"
  by simp

lemma vcg_snd_let_state:
  "I f \<Longrightarrow> (\<And>x. I x \<Longrightarrow> I (snd (g x))) \<Longrightarrow> I (snd (Let f g))"
  for f :: regexpData
  by simp

lemma vcg_snd_let_bool:
  "(\<And>x. I (snd (g x))) \<Longrightarrow> I (snd (Let f g))"
  for f :: "bool"
  by simp

lemma vcg_snd_let_int:
  "(\<And>x. I (snd (g x))) \<Longrightarrow> I (snd (Let f g))"
  for f :: "int"
  by simp

lemma vcg_snd_let_nat:
  "(\<And>x. I (snd (g x))) \<Longrightarrow> I (snd (Let f g))"
  for f :: "nat"
  by simp

lemma vcg_snd_let_string:
  "(\<And>x. I (snd (g x))) \<Longrightarrow> I (snd (Let f g))"
  for f :: "string"
  by simp

lemma vcg_snd_let_string_option:
  "(\<And>x. I (snd (g x))) \<Longrightarrow> I (snd (Let f g))"
  for f :: "string option"
  by simp

lemma vcg_snd_let_RegexNode_option:
  "(\<And>x. I (snd (g x))) \<Longrightarrow> I (snd (Let f g))"
  for f :: "RegexNode option"
  by simp

lemma vcg_snd_let_LoopLocals:
  "(\<And>x. I (snd (g x))) \<Longrightarrow> I (snd (Let f g))"
  for f :: "LoopLocals"
  by simp

lemma vcg_snd_let_AlternationLocals:
  "(\<And>x. I (snd (g x))) \<Longrightarrow> I (snd (Let f g))"
  for f :: "AlternationLocals"
  by simp

lemma vcg_snd_let_name:
  "I (snd f) \<Longrightarrow> (\<And>a x. I x \<Longrightarrow> I (snd (g a x))) \<Longrightarrow> I (snd (Let f (case_prod g)))"
  for f :: "string \<times> regexpData"
  by (cases f) simp

lemma vcg_snd_if:
  "I (snd (a)) \<Longrightarrow> I (snd (b)) \<Longrightarrow> I (snd (if c then a else b))"
  by simp

lemma vcg_fst_let_state:
  "I f \<Longrightarrow> (\<And>x. I x \<Longrightarrow> I (fst (g x))) \<Longrightarrow> I (fst (Let f g))"
  for f :: regexpData
  by simp

lemma vcg_fst_let_bool:
  "(\<And>x. I (fst (g x))) \<Longrightarrow> I (fst (Let f g))"
  for f :: "bool"
  by simp

lemma vcg_fst_let_int:
  "(\<And>x. I (fst (g x))) \<Longrightarrow> I (fst (Let f g))"
  for f :: "int"
  by simp

lemma vcg_fst_let_nat:
  "(\<And>x. I (fst (g x))) \<Longrightarrow> I (fst (Let f g))"
  for f :: "nat"
  by simp

lemma vcg_fst_let_string:
  "(\<And>x. I (fst (g x))) \<Longrightarrow> I (fst (Let f g))"
  for f :: "string"
  by simp

lemma vcg_fst_let_string_option:
  "(\<And>x. I (fst (g x))) \<Longrightarrow> I (fst (Let f g))"
  for f :: "string option"
  by simp

lemma vcg_fst_let_RegexNode_option:
  "(\<And>x. I (fst (g x))) \<Longrightarrow> I (fst (Let f g))"
  for f :: "RegexNode option"
  by simp

lemma vcg_fst_let_LoopLocals:
  "(\<And>x. I (fst (g x))) \<Longrightarrow> I (fst (Let f g))"
  for f :: "LoopLocals"
  by simp

lemma vcg_fst_let_AlternationLocals:
  "(\<And>x. I (fst (g x))) \<Longrightarrow> I (fst (Let f g))"
  for f :: "AlternationLocals"
  by simp

lemma vcg_fst_let_name:
  "I (snd f) \<Longrightarrow> (\<And>a x. I x \<Longrightarrow> I (fst (g a x))) \<Longrightarrow> I (fst (Let f (case_prod g)))"
  for f :: "string \<times> regexpData"
  by (cases f) simp

lemma vcg_fst_if:
  "I (fst (a)) \<Longrightarrow> I (fst (b)) \<Longrightarrow> I (fst (if c then a else b))"
  by simp

lemma vcg_snd_pair: "I x \<Longrightarrow> I (snd (a, x))"
  by simp

lemma vcg_fst_pair: "I x \<Longrightarrow> I (fst (x, a))"
  by simp

lemmas vcg_state = vcg_let_state vcg_let_bool vcg_let_int vcg_let_nat vcg_let_string vcg_let_string_option vcg_let_RegexNode_option vcg_let_LoopLocals vcg_let_AlternationLocals vcg_let_name vcg_if

lemmas vcg_snd = vcg_snd_let_state vcg_snd_let_bool vcg_snd_let_int vcg_snd_let_nat vcg_snd_let_string vcg_snd_let_string_option vcg_snd_let_RegexNode_option vcg_snd_let_LoopLocals vcg_snd_let_AlternationLocals vcg_snd_let_name vcg_snd_if vcg_snd_pair

lemmas vcg_fst = vcg_fst_let_state vcg_fst_let_bool vcg_fst_let_int vcg_fst_let_nat vcg_fst_let_string vcg_fst_let_string_option vcg_fst_let_RegexNode_option vcg_fst_let_LoopLocals vcg_fst_let_AlternationLocals vcg_fst_let_name vcg_fst_if vcg_fst_pair

lemma sameConfig_refl [simp]: "sameConfig rm rm"
  by (simp add: sameConfig_def)

lemma sameConfig_steps [simp]:
  "sameConfig rm0 (writeLine s rm) = sameConfig rm0 rm"
  "sameConfig rm0 (writeText s rm) = sameConfig rm0 rm"
  "sameConfig rm0 (addLocalDec s rm) = sameConfig rm0 rm"
  "sameConfig rm0 (emitAddStmt variable v rm) = sameConfig rm0 rm"
  "sameConfig rm0 (sliceInputSpan declare rm) = sameConfig rm0 rm"
  "sameConfig rm0 (transferSliceStaticPosToPos force rm) = sameConfig rm0 rm"
  "sameConfig rm0 (emitUncaptureUntil capturepos rm) = sameConfig rm0 rm"
  "sameConfig rm0 (emitExecuteGoto label rm) = sameConfig rm0 rm"
  "sameConfig rm0 (emitMarkLabel label rm) = sameConfig rm0 rm"
  "sameConfig rm0 (emitCaseGoto clause label rm) = sameConfig rm0 rm"
  "sameConfig rm0 (emitStackCookieValidate k rm) = sameConfig rm0 rm"
  "sameConfig rm0 (emitTimeoutCheckIfNeeded rm) = sameConfig rm0 rm"
  "sameConfig rm0 (emitStackPop k args rm) = sameConfig rm0 rm"
  "sameConfig rm0 (emitStackPush k args rm) = sameConfig rm0 rm"
  "sameConfig rm0 (emitSpanLengthCheck X n d rm) = sameConfig rm0 rm"
  "sameConfig rm0 (snd (reserveName pfx rm)) = sameConfig rm0 rm"
  "sameConfig rm0 (rm\<lparr>doneLabel := l\<rparr>) = sameConfig rm0 rm"
  "sameConfig rm0 (rm\<lparr>sliceStaticPos := p\<rparr>) = sameConfig rm0 rm"
  "sameConfig rm0 (rm\<lparr>additionalDeclarations := ds\<rparr>) = sameConfig rm0 rm"
  by (simp_all add: sameConfig_def)

lemma prefix_out_steps [simp]:
  "prefix xs (out rm) \<Longrightarrow> prefix xs (out (writeLine s rm))"
  "prefix xs (out rm) \<Longrightarrow> prefix xs (out (writeText s rm))"
  "prefix xs (out rm) \<Longrightarrow> prefix xs (out (emitAddStmt variable v rm))"
  "prefix xs (out rm) \<Longrightarrow> prefix xs (out (sliceInputSpan declare rm))"
  "prefix xs (out rm) \<Longrightarrow> prefix xs (out (transferSliceStaticPosToPos force rm))"
  "prefix xs (out rm) \<Longrightarrow> prefix xs (out (emitUncaptureUntil capturepos rm))"
  "prefix xs (out rm) \<Longrightarrow> prefix xs (out (emitExecuteGoto label rm))"
  "prefix xs (out rm) \<Longrightarrow> prefix xs (out (emitMarkLabel label rm))"
  "prefix xs (out rm) \<Longrightarrow> prefix xs (out (emitCaseGoto clause label rm))"
  "prefix xs (out rm) \<Longrightarrow> prefix xs (out (emitStackPop k args rm))"
  "prefix xs (out rm) \<Longrightarrow> prefix xs (out (emitStackPush k args rm))"
  "prefix xs (out rm) \<Longrightarrow> prefix xs (out (emitSpanLengthCheck X n d rm))"
  by simp_all


section \<open>The example state\<close>

lemma exampleState_fields [simp]:
  "out (exampleState root sp) = []"
  "GeneratedName (exampleState root sp) = ''Example''"
  "rmOptions (exampleState root sp) = 0"
  "Tree (exampleState root sp) = exampleTree root"
  "Analysis (exampleState root sp) = exampleAnalysis"
  "usedNames (exampleState root sp) = (\<lambda>_. 0)(''NoMatch'' := 1)"
  "additionalDeclarations (exampleState root sp) = []"
  "sliceSpan (exampleState root sp) = ''slice''"
  "sliceStaticPos (exampleState root sp) = sp"
  "doneLabel (exampleState root sp) = ''NoMatch''"
  "topLevelDoneLabel (exampleState root sp) = ''NoMatch''"
  "expressionHasCaptures (exampleState root sp) = False"
  by (simp_all add: exampleState_def)


section \<open>Properties of the slice position tracker\<close>

text \<open>
  C10.  \<^verbatim>\<open>transferSliceStaticPosToPos\<close> leaves \<open>sliceStaticPos\<close> at 0; with
  \<open>sliceStaticPos = 0\<close> and no forced reload it changes nothing, so a second call right
  after a first one is a no-op; with \<open>sliceStaticPos > 0\<close> it writes exactly the advance of
  \<^verbatim>\<open>pos\<close> and then the reslice of the input.  The static position is a count of characters
  already matched; the emitters only set it to 0, add lengths to it or restore a saved
  value, so it is never negative.
\<close>

theorem transferSliceStaticPosToPos_spec:
  assumes "0 \<le> sliceStaticPos rm"
  shows "sliceStaticPos (transferSliceStaticPosToPos force rm) = 0
       \<and> (sliceStaticPos rm = 0 \<longrightarrow> transferSliceStaticPosToPos False rm = rm)
       \<and> transferSliceStaticPosToPos False (transferSliceStaticPosToPos force rm)
           = transferSliceStaticPosToPos force rm
       \<and> (sliceStaticPos rm > 0 \<longrightarrow>
            transferSliceStaticPosToPos force rm =
              rm\<lparr>out := out rm @
                     [(if sliceStaticPos rm = 1 then ''pos++'' else ''pos += '' @ Itoa (sliceStaticPos rm)) @ ''\<newline>'',
                      sliceSpan rm @ '' = r.Runtext[pos:]'' @ ''\<newline>''],
                 sliceStaticPos := 0\<rparr>)"
  using assms
  by (auto simp: transferSliceStaticPosToPos_def sliceInputSpan_def emitAddStmt_def writeLine_def)

theorem transferSliceStaticPosToPos_spec_witness:
  "0 \<le> sliceStaticPos (exampleState emptyNode 3)
   \<and> transferSliceStaticPosToPos False (exampleState emptyNode 3) =
       (exampleState emptyNode 3)\<lparr>out := [''pos += 3\<newline>'', ''slice = r.Runtext[pos:]\<newline>''], sliceStaticPos := 0\<rparr>"
  using transferSliceStaticPosToPos_spec [of "exampleState emptyNode 3" False]
  by (simp add: exampleState_def Itoa_def natstr.simps digit_def)

section \<open>Degenerate patterns\<close>

text \<open>
  C7.  When the root's first child is an \<open>Empty\<close> node, \<^verbatim>\<open>emitExecute\<close> writes the procedure
  header, the capture of group 0 from \<^verbatim>\<open>pos\<close> to \<^verbatim>\<open>pos\<close>, the return and the closing brace,
  and nothing else; when it is a \<open>Nothing\<close> node, the header, a bare return (the procedure
  returns without a capture, which is how a failed match is reported) and the closing
  brace.  No other field of the state changes, and the result is the same for every
  dispatcher: the dispatcher is not called.
\<close>

theorem emitExecute_degenerate:
  assumes "Children (Root (Tree rm)) = root # rest"
  shows "(T root = NtEmpty \<longrightarrow>
            emitExecute emitNode rm =
              Inr (rm\<lparr>out := out rm @
                     [''func ('' @ GeneratedName rm @ ''_Engine) Execute(r *regexp2.Runner) error {\<newline>'',
                      ''// The pattern matches the empty string\<newline>'',
                      ''var pos = r.Runtextpos\<newline>'',
                      ''r.Capture(0, pos, pos)\<newline>'',
                      ''return nil\<newline>'',
                      ''}\<newline>\<newline>'']\<rparr>))
       \<and> (T root = NtNothing \<longrightarrow>
            emitExecute emitNode rm =
              Inr (rm\<lparr>out := out rm @
                     [''func ('' @ GeneratedName rm @ ''_Engine) Execute(r *regexp2.Runner) error {\<newline>'',
                      ''return nil\<newline>'',
                      ''}\<newline>\<newline>'']\<rparr>))"
  using assms by (simp add: emitExecute_def writeLine_def)

theorem emitExecute_degenerate_witness:
  "emitExecute (\<lambda>rm node subsequent emitLengthChecksIfRequired. Inl UnhandledNode) (exampleState emptyNode 0) =
     Inr ((exampleState emptyNode 0)\<lparr>out :=
            [''func (Example_Engine) Execute(r *regexp2.Runner) error {\<newline>'',
             ''// The pattern matches the empty string\<newline>'',
             ''var pos = r.Runtextpos\<newline>'',
             ''r.Capture(0, pos, pos)\<newline>'',
             ''return nil\<newline>'',
             ''}\<newline>\<newline>'']\<rparr>)
   \<and> emitExecute (\<lambda>rm node subsequent emitLengthChecksIfRequired. Inl UnhandledNode) (exampleState nothingNode 0) =
     Inr ((exampleState nothingNode 0)\<lparr>out :=
            [''func (Example_Engine) Execute(r *regexp2.Runner) error {\<newline>'',
             ''return nil\<newline>'',
             ''}\<newline>\<newline>'']\<rparr>)"
  using emitExecute_degenerate [of "exampleState emptyNode 0" emptyNode "[]"
          "\<lambda>rm node subsequent emitLengthChecksIfRequired. Inl UnhandledNode"]
        emitExecute_degenerate [of "exampleState nothingNode 0" nothingNode "[]"
          "\<lambda>rm node subsequent emitLengthChecksIfRequired. Inl UnhandledNode"]
  by (simp add: exampleState_def exampleTree_def emptyNode_def nothingNode_def)

section \<open>Right-to-left strings\<close>

text \<open>
  C5.  The code written for a right-to-left \<open>Multi\<close> node, here for the string \<^verbatim>\<open>ab\<close> (length 2).
  The guard compares \<^verbatim>\<open>pos - 2\<close> with the length of the input as signed integers, so it does
  not fire when fewer than two characters precede \<^verbatim>\<open>pos\<close>; and the loop indexes the literal
  with \<^verbatim>\<open>2 - i\<close> for \<^verbatim>\<open>i\<close> from 0, that is at 2 and then 1, not at 1 and then 0.
\<close>

theorem emitExecuteMultiCharString_rightToLeft_example:
  "out (emitExecuteMultiCharString exampleExterns [97, 98] True False True
          (exampleState (multiNode RightToLeft [97, 98]) 0)) =
     [''if pos - 2 >= r.Runtextlen {\<newline>'',
      ''return nil // The input didn't match.\<newline>'',
      ''}\<newline>\<newline>'',
      ''for i:=0; i < 2; i++ {\<newline>'' @ tabs 6 @ ''pos--\<newline>'' @ tabs 6
        @ ''if r.Runtext[pos] != []rune('' @ [CHR 0x22] @ ''ab'' @ [CHR 0x22] @ '')[2 - i] {\<newline>'',
      ''return nil // The input didn't match.\<newline>'',
      ''}\<newline>}\<newline>'']"
  by (simp add: emitExecuteMultiCharString_def exampleState_def exampleExterns_def exampleChar_def
        writeLine_def emitExecuteGoto_def gotoWillExitMatch_def Itoa_def natstr.simps digit_def)

section \<open>Anchors\<close>

text \<open>
  C6.  The code written for an \<open>Eol\<close> node, with the static position at 0 and at 3.  In both
  the condition line closes a round bracket that was never opened: the text is not a Go
  condition, whatever it was meant to test.
\<close>

theorem emitExecuteAnchors_Eol_example:
  "out (emitExecuteAnchors (anchorNode NtEol) (exampleState (anchorNode NtEol) 0)) =
     [''if pos < r.Runtextend && r.Runtext[pos] != '' @ [CHR 0x27] @ [CHR 0x5C] @ ''n') {\<newline>'',
      ''return nil // The input didn't match.\<newline>'',
      ''}\<newline>'']
   \<and> out (emitExecuteAnchors (anchorNode NtEol) (exampleState (anchorNode NtEol) 3)) =
     [''if 3 < len(slice)) && slice[3] != '' @ [CHR 0x27] @ [CHR 0x5C] @ ''n') {\<newline>'',
      ''return nil // The input didn't match.\<newline>'',
      ''}\<newline>'']
   \<and> \<not> balanced (hd (out (emitExecuteAnchors (anchorNode NtEol) (exampleState (anchorNode NtEol) 0)))) 0
   \<and> \<not> balanced (hd (out (emitExecuteAnchors (anchorNode NtEol) (exampleState (anchorNode NtEol) 3)))) 0"
  by (simp add: emitExecuteAnchors_def anchorNode_def exampleState_def
        writeLine_def emitExecuteGoto_def gotoWillExitMatch_def Itoa_def natstr.simps digit_def)

section \<open>The continuation test of a general loop\<close>

lemma emitExecuteLoop_condition_fields [simp]:
  "GeneratedName (emitExecuteLoop_condition L rm) = GeneratedName rm"
  "rmOptions (emitExecuteLoop_condition L rm) = rmOptions rm"
  "Tree (emitExecuteLoop_condition L rm) = Tree rm"
  "Analysis (emitExecuteLoop_condition L rm) = Analysis rm"
  "usedNames (emitExecuteLoop_condition L rm) = usedNames rm"
  "additionalDeclarations (emitExecuteLoop_condition L rm) = additionalDeclarations rm"
  "sliceSpan (emitExecuteLoop_condition L rm) = sliceSpan rm"
  "sliceStaticPos (emitExecuteLoop_condition L rm) = sliceStaticPos rm"
  "doneLabel (emitExecuteLoop_condition L rm) = doneLabel rm"
  "topLevelDoneLabel (emitExecuteLoop_condition L rm) = topLevelDoneLabel rm"
  "expressionHasCaptures (emitExecuteLoop_condition L rm) = expressionHasCaptures rm"
  by (simp_all add: emitExecuteLoop_condition_def Let_def)

lemma emitExecuteLoop_condition_out:
  "out (emitExecuteLoop_condition L rm) =
     (let node_M = loop_minIterations L; node_N = loop_maxIterations L;
          emptyPossible = loop_iterationMayBeEmpty L;
          count = loop_iterationCount L; start = loop_startingPos L;
          again = gotoLines rm (loop_body L); leave = gotoLines rm (loop_endLoop L)
      in out rm @ [[] @ ''\<newline>''] @
         (if \<not> emptyPossible \<and> node_N = MaxInt32 then
            [''// The loop has no upper bound. Continue iterating greedily.'' @ ''\<newline>''] @ again
          else if \<not> emptyPossible then
            [(''// The loop has an upper bound of '' @ (Itoa (node_N)) @ ''. Continue iterating greedily if it hasn't yet been reached.'') @ ''\<newline>''] @
            [(''if '' @ (countIsLessThan count (node_N)) @ '' {'') @ ''\<newline>'']
            @ again @ [''}'' @ ''\<newline>''] @ leave
          else if node_N = MaxInt32 \<and> \<not> node_M > 0 then
            [(''// The loop is unbounded. Continue iterating greedily as long as the last iteration wasn't empty.\<newline>'' @ tabs 6 @ ''if pos != '' @ start @ '' {'') @ ''\<newline>'']
            @ again @ [''}'' @ ''\<newline>''] @ leave
          else if node_N = MaxInt32 then
            [(''// The loop has a lower bound of '' @ (Itoa (node_M)) @ '' but no upper bound. Continue iterating greedily\<newline>'' @ tabs 6 @ ''// if the last iteration wasn't empty (or if it was, if the lower bound hasn't yet been reached).\<newline>'' @ tabs 6 @ ''if pos != '' @ start @ '' || '' @ (countIsLessThan count (node_M)) @ '' {\<newline>'' @ tabs 6) @ ''\<newline>'']
            @ again @ [''}'' @ ''\<newline>''] @ leave
          else if \<not> node_M > 0 then
            [(''// The loop has an upper bound of '' @ (Itoa (node_N)) @ ''. Continue iterating greedily if the upper bound hasn't\<newline>'' @ tabs 6 @ ''// yet been reached (as long as the last iteration wasn't empty).\<newline>'' @ tabs 6 @ ''if pos != '' @ start @ '' && '' @ (countIsLessThan count (node_N)) @ '' {'') @ ''\<newline>'']
            @ again @ [''}'' @ ''\<newline>''] @ leave
          else
            [(''// The loop has a lower bound of '' @ (Itoa (node_M)) @ '' and an upper bound of {maxIterations}. Continue iterating\<newline>'' @ tabs 6 @ ''// greedily if the upper bound hasn't yet been reached and either the last iteration was non-empty or the\<newline>'' @ tabs 6 @ ''// lower bound hasn't yet been reached.\<newline>'' @ tabs 6 @ ''if (pos != '' @ start @ '' || '' @ (countIsLessThan count (node_M)) @ '') && '' @ (countIsLessThan count (node_N)) @ '' {'') @ ''\<newline>'']
            @ again @ [''}'' @ ''\<newline>''] @ leave))"
  by (cases "loop_iterationMayBeEmpty L"; cases "loop_maxIterations L = MaxInt32";
      cases "loop_minIterations L > 0")
     (simp_all only: emitExecuteLoop_condition_def Let_def if_True if_False simp_thms
        writeLine_fields emitExecuteGoto_fields gotoLines_def append_assoc)

lemma emitExecuteLoop_enter_locals:
  "loop_minIterations (snd (emitExecuteLoop_enter X rm node child)) = M node"
  "loop_maxIterations (snd (emitExecuteLoop_enter X rm node child)) = N node"
  "loop_iterationMayBeEmpty (snd (emitExecuteLoop_enter X rm node child)) = (ComputeMinLength X child = 0)"
  by (simp_all add: emitExecuteLoop_enter_def Let_def split_beta)

lemma prefix_out_iterationFailed:
  "prefix xs (out rm) \<Longrightarrow> prefix xs (out (emitExecuteLoop_iterationFailed L cb rm))"
  unfolding emitExecuteLoop_iterationFailed_def
  by (intro vcg_state [where I = "\<lambda>x. prefix xs (out x)"]) simp_all

lemma prefix_out_exit:
  "prefix xs (out rm) \<Longrightarrow> prefix xs (out (emitExecuteLoop_exit L node cb rm))"
  unfolding emitExecuteLoop_exit_def
  by (intro vcg_state [where I = "\<lambda>x. prefix xs (out x)"]) simp_all

text \<open>
  C1.  On the path of \<^verbatim>\<open>emitExecuteLoop\<close> that is not one of the repeaters, the code written
  right after the child's code (and the transfer of the static position that follows it)
  is the continuation test: for a body that cannot be empty, an unconditional jump back to
  the body when \<open>N\<close> is infinite and the test \<open>count < N\<close> otherwise; for a body that may be
  empty, the test the table gives from whether \<open>N\<close> is infinite and whether \<open>M > 0\<close>.  Every
  test but the unconditional one is an \<^verbatim>\<open>if\<close> around the jump to the body, followed by the
  jump to the end of the loop.  The comparison of the iteration count with a bound \<open>k\<close> is
  written \<^verbatim>\<open>count < k\<close>, except for the bound 1, where the code writes \<^verbatim>\<open>count == 0\<close>:
  \<open>belowN\<close> and \<open>belowM\<close> are these texts for \<open>N\<close> and \<open>M\<close>.  \<open>gotoLines\<close> is a jump as the code
  writes it.  What follows the test (\<open>rest\<close>) is the code for a failed iteration and the end
  of the loop.
\<close>

theorem emitExecuteLoop_continuation_test:
  assumes children: "Children node = child # siblings"
    and general: "\<not> (M node = N node \<and> M node = 0)" "\<not> (M node = N node \<and> M node = 1)"
      "\<not> (M node = N node \<and> M node > 1 \<and> \<not> MayBacktrack (Analysis rm) child)"
    and result: "emitExecuteLoop X emitNode rm node = Inr rm'"
  shows "\<exists>rmB rest.
     emitNode (fst (emitExecuteLoop_enter X rm node child)) child None True = Inr rmB \<and>
     (let L = snd (emitExecuteLoop_enter X rm node child);
          rmC = transferSliceStaticPosToPos False (writeLine [] rmB);
          emptyPossible = (ComputeMinLength X child = 0);
          count = loop_iterationCount L; start = loop_startingPos L;
          belowN = (if N node = 1 then count @ '' == 0'' else count @ '' < '' @ Itoa (N node));
          belowM = (if M node = 1 then count @ '' == 0'' else count @ '' < '' @ Itoa (M node));
          again = gotoLines rmC (loop_body L); leave = gotoLines rmC (loop_endLoop L)
      in out rm' = out rmC @ [[] @ ''\<newline>''] @
         (if \<not> emptyPossible \<and> N node = MaxInt32 then
            [''// The loop has no upper bound. Continue iterating greedily.'' @ ''\<newline>''] @ again
          else if \<not> emptyPossible then
            [(''// The loop has an upper bound of '' @ (Itoa (N node)) @ ''. Continue iterating greedily if it hasn't yet been reached.'') @ ''\<newline>''] @
            [(''if '' @ belowN @ '' {'') @ ''\<newline>'']
            @ again @ [''}'' @ ''\<newline>''] @ leave
          else if N node = MaxInt32 \<and> \<not> M node > 0 then
            [(''// The loop is unbounded. Continue iterating greedily as long as the last iteration wasn't empty.\<newline>'' @ tabs 6 @ ''if pos != '' @ start @ '' {'') @ ''\<newline>'']
            @ again @ [''}'' @ ''\<newline>''] @ leave
          else if N node = MaxInt32 then
            [(''// The loop has a lower bound of '' @ (Itoa (M node)) @ '' but no upper bound. Continue iterating greedily\<newline>'' @ tabs 6 @ ''// if the last iteration wasn't empty (or if it was, if the lower bound hasn't yet been reached).\<newline>'' @ tabs 6 @ ''if pos != '' @ start @ '' || '' @ belowM @ '' {\<newline>'' @ tabs 6) @ ''\<newline>'']
            @ again @ [''}'' @ ''\<newline>''] @ leave
          else if \<not> M node > 0 then
            [(''// The loop has an upper bound of '' @ (Itoa (N node)) @ ''. Continue iterating greedily if the upper bound hasn't\<newline>'' @ tabs 6 @ ''// yet been reached (as long as the last iteration wasn't empty).\<newline>'' @ tabs 6 @ ''if pos != '' @ start @ '' && '' @ belowN @ '' {'') @ ''\<newline>'']
            @ again @ [''}'' @ ''\<newline>''] @ leave
          else
            [(''// The loop has a lower bound of '' @ (Itoa (M node)) @ '' and an upper bound of {maxIterations}. Continue iterating\<newline>'' @ tabs 6 @ ''// greedily if the upper bound hasn't yet been reached and either the last iteration was non-empty or the\<newline>'' @ tabs 6 @ ''// lower bound hasn't yet been reached.\<newline>'' @ tabs 6 @ ''if (pos != '' @ start @ '' || '' @ belowM @ '') && '' @ belowN @ '' {'') @ ''\<newline>'']
            @ again @ [''}'' @ ''\<newline>''] @ leave)
         @ rest)"
proof -
  define rmA where "rmA = fst (emitExecuteLoop_enter X rm node child)"
  define L where "L = snd (emitExecuteLoop_enter X rm node child)"
  have enter: "emitExecuteLoop_enter X rm node child = (rmA, L)"
    by (simp add: rmA_def L_def)
  from result children general enter obtain rmB where
    child: "emitNode rmA child None True = Inr rmB" and
    rm': "rm' =
      emitExecuteLoop_exit L node (doneLabel (transferSliceStaticPosToPos False (writeLine [] rmB))
                                     \<noteq> loop_iterationFailedLabel L)
        (emitExecuteLoop_iterationFailed L
           (doneLabel (transferSliceStaticPosToPos False (writeLine [] rmB)) \<noteq> loop_iterationFailedLabel L)
           (emitExecuteLoop_condition L (transferSliceStaticPosToPos False (writeLine [] rmB))))"
    by (auto simp: emitExecuteLoop_def Let_def split: sum.splits if_splits)
  define rmC where "rmC = transferSliceStaticPosToPos False (writeLine [] rmB)"
  have "prefix (out (emitExecuteLoop_condition L rmC)) (out rm')"
    unfolding rm' rmC_def by (intro prefix_out_exit prefix_out_iterationFailed) simp
  then obtain rest where rest: "out rm' = out (emitExecuteLoop_condition L rmC) @ rest"
    by (auto simp: prefix_def)
  have locals: "loop_minIterations L = M node" "loop_maxIterations L = N node"
    "loop_iterationMayBeEmpty L = (ComputeMinLength X child = 0)"
    by (simp_all add: L_def emitExecuteLoop_enter_locals)
  have test: "out rm' = out (emitExecuteLoop_condition L rmC) @ rest"
    by (rule rest)
  show ?thesis
    apply (rule exI [where x = rmB])
    apply (rule exI [where x = rest])
    apply (rule conjI)
     apply (simp only: rmA_def [symmetric] child)
    apply (simp only: Let_def L_def [symmetric] rmC_def [symmetric] test
        emitExecuteLoop_condition_out locals countIsLessThan_def append_assoc)
    done
qed


lemma emitExecuteLoop_general_returns:
  assumes "Children node = child # siblings"
    and "\<not> (M node = N node \<and> M node = 0)" "\<not> (M node = N node \<and> M node = 1)"
      "\<not> (M node = N node \<and> M node > 1 \<and> \<not> MayBacktrack (Analysis rm) child)"
    and "emitNode (fst (emitExecuteLoop_enter X rm node child)) child None True = Inr rmB"
  shows "\<exists>rm'. emitExecuteLoop X emitNode rm node = Inr rm'"
  using assms by (auto simp: emitExecuteLoop_def Let_def split_beta)

lemma emitExecuteLoop_enter_example:
  "snd (emitExecuteLoop_enter exampleExterns (exampleState (loopNode 2 5 emptyNode) 0)
          (loopNode 2 5 emptyNode) emptyNode) =
     \<lparr>loop_minIterations = 2, loop_maxIterations = 5, loop_isAtomic = False,
      loop_startingStackpos = ''startingStackpos'', loop_originalDoneLabel = ''NoMatch'',
      loop_body = ''LoopBody'', loop_endLoop = ''LoopEnd'', loop_iterationCount = ''loop_iteration'',
      loop_iterationMayBeEmpty = True, loop_startingPos = ''loop_starting_pos'',
      loop_iterationFailedLabel = ''LoopIterationNoMatch''\<rparr>"
  "out (fst (emitExecuteLoop_enter exampleExterns (exampleState (loopNode 2 5 emptyNode) 0)
          (loopNode 2 5 emptyNode) emptyNode)) =
     [''startingStackpos = stackpos\<newline>'', ''loop_starting_pos = pos\<newline>'',
      ''loop_iteration = 0\<newline>\<newline>'', ''LoopBody:\<newline>'',
      ''r.StackPush2(loop_starting_pos, pos)\<newline>'', ''\<newline>'',
      ''loop_starting_pos = pos\<newline>'', ''loop_iteration++\<newline>\<newline>'']"
  "sliceStaticPos (fst (emitExecuteLoop_enter exampleExterns (exampleState (loopNode 2 5 emptyNode) 0)
          (loopNode 2 5 emptyNode) emptyNode)) = 0"
  "topLevelDoneLabel (fst (emitExecuteLoop_enter exampleExterns (exampleState (loopNode 2 5 emptyNode) 0)
          (loopNode 2 5 emptyNode) emptyNode)) = ''NoMatch''"
  "expressionHasCaptures (fst (emitExecuteLoop_enter exampleExterns (exampleState (loopNode 2 5 emptyNode) 0)
          (loopNode 2 5 emptyNode) emptyNode)) = False"
  by (simp_all add: emitExecuteLoop_enter_def loopNode_def emptyNode_def exampleExterns_def
        exampleAnalysis_def exampleMinLength.simps createStackCookie_def
        reserveName_fst split_beta Let_def natstr.simps digit_def Itoa_def transferLines_def pushLine_def
        cong: let_weak_cong prod.case_cong_weak)

lemma emitExecuteLoop_enter_optional:
  "snd (emitExecuteLoop_enter exampleExterns (exampleState (loopNode 0 1 (oneNode 97)) 0)
          (loopNode 0 1 (oneNode 97)) (oneNode 97)) =
     \<lparr>loop_minIterations = 0, loop_maxIterations = 1, loop_isAtomic = False,
      loop_startingStackpos = [], loop_originalDoneLabel = ''NoMatch'',
      loop_body = ''LoopBody'', loop_endLoop = ''LoopEnd'', loop_iterationCount = ''loop_iteration'',
      loop_iterationMayBeEmpty = False, loop_startingPos = [],
      loop_iterationFailedLabel = ''LoopIterationNoMatch''\<rparr>"
  "out (fst (emitExecuteLoop_enter exampleExterns (exampleState (loopNode 0 1 (oneNode 97)) 0)
          (loopNode 0 1 (oneNode 97)) (oneNode 97))) =
     [''loop_iteration = 0\<newline>\<newline>'', ''LoopBody:\<newline>'',
      ''r.StackPush(pos)\<newline>'', ''\<newline>'', ''loop_iteration++\<newline>\<newline>'']"
  "sliceStaticPos (fst (emitExecuteLoop_enter exampleExterns (exampleState (loopNode 0 1 (oneNode 97)) 0)
          (loopNode 0 1 (oneNode 97)) (oneNode 97))) = 0"
  "topLevelDoneLabel (fst (emitExecuteLoop_enter exampleExterns (exampleState (loopNode 0 1 (oneNode 97)) 0)
          (loopNode 0 1 (oneNode 97)) (oneNode 97))) = ''NoMatch''"
  "expressionHasCaptures (fst (emitExecuteLoop_enter exampleExterns (exampleState (loopNode 0 1 (oneNode 97)) 0)
          (loopNode 0 1 (oneNode 97)) (oneNode 97))) = False"
  by (simp_all add: emitExecuteLoop_enter_def loopNode_def oneNode_def exampleExterns_def
        exampleAnalysis_def exampleMinLength.simps createStackCookie_def
        reserveName_fst split_beta Let_def natstr.simps digit_def Itoa_def transferLines_def pushLine_def
        cong: let_weak_cong prod.case_cong_weak)

theorem emitExecuteLoop_continuation_test_witness:
  "(\<exists>rm' rest.
     emitExecuteLoop exampleExterns (\<lambda>rm node subsequent emitLengthChecksIfRequired. Inr rm)
        (exampleState (loopNode 2 5 emptyNode) 0) (loopNode 2 5 emptyNode) = Inr rm' \<and>
     out rm' =
       [''startingStackpos = stackpos\<newline>'', ''loop_starting_pos = pos\<newline>'',
        ''loop_iteration = 0\<newline>\<newline>'', ''LoopBody:\<newline>'',
        ''r.StackPush2(loop_starting_pos, pos)\<newline>'', ''\<newline>'',
        ''loop_starting_pos = pos\<newline>'', ''loop_iteration++\<newline>\<newline>'',
        ''\<newline>'',
        ''\<newline>'',
        ''// The loop has a lower bound of 2 and an upper bound of {maxIterations}. Continue iterating\<newline>'' @ tabs 6 @ ''// greedily if the upper bound hasn't yet been reached and either the last iteration was non-empty or the\<newline>'' @ tabs 6 @ ''// lower bound hasn't yet been reached.\<newline>'' @ tabs 6 @ ''if (pos != loop_starting_pos || loop_iteration < 2) && loop_iteration < 5 {\<newline>'',
        ''goto LoopBody\<newline>'',
        ''}\<newline>'',
        ''goto LoopEnd\<newline>''] @ rest)
   \<and> (\<exists>rm' rest.
     emitExecuteLoop exampleExterns (\<lambda>rm node subsequent emitLengthChecksIfRequired. Inr rm)
        (exampleState (loopNode 0 1 (oneNode 97)) 0) (loopNode 0 1 (oneNode 97)) = Inr rm' \<and>
     out rm' =
       [''loop_iteration = 0\<newline>\<newline>'', ''LoopBody:\<newline>'',
        ''r.StackPush(pos)\<newline>'', ''\<newline>'', ''loop_iteration++\<newline>\<newline>'',
        ''\<newline>'',
        ''\<newline>'',
        ''// The loop has an upper bound of 1. Continue iterating greedily if it hasn't yet been reached.\<newline>'',
        ''if loop_iteration == 0 {\<newline>'',
        ''goto LoopBody\<newline>'',
        ''}\<newline>'',
        ''goto LoopEnd\<newline>''] @ rest)"
proof -
  have bounded: "\<exists>rm' rest.
     emitExecuteLoop exampleExterns (\<lambda>rm node subsequent emitLengthChecksIfRequired. Inr rm)
        (exampleState (loopNode 2 5 emptyNode) 0) (loopNode 2 5 emptyNode) = Inr rm' \<and>
     out rm' =
       [''startingStackpos = stackpos\<newline>'', ''loop_starting_pos = pos\<newline>'',
        ''loop_iteration = 0\<newline>\<newline>'', ''LoopBody:\<newline>'',
        ''r.StackPush2(loop_starting_pos, pos)\<newline>'', ''\<newline>'',
        ''loop_starting_pos = pos\<newline>'', ''loop_iteration++\<newline>\<newline>'',
        ''\<newline>'',
        ''\<newline>'',
        ''// The loop has a lower bound of 2 and an upper bound of {maxIterations}. Continue iterating\<newline>'' @ tabs 6 @ ''// greedily if the upper bound hasn't yet been reached and either the last iteration was non-empty or the\<newline>'' @ tabs 6 @ ''// lower bound hasn't yet been reached.\<newline>'' @ tabs 6 @ ''if (pos != loop_starting_pos || loop_iteration < 2) && loop_iteration < 5 {\<newline>'',
        ''goto LoopBody\<newline>'',
        ''}\<newline>'',
        ''goto LoopEnd\<newline>''] @ rest"
  proof -
    let ?e = "\<lambda>rm node subsequent emitLengthChecksIfRequired. Inr rm :: error + regexpData"
    let ?S = "exampleState (loopNode 2 5 emptyNode) 0"
    let ?node = "loopNode 2 5 emptyNode"
    have node: "Children ?node = emptyNode # []" "M ?node = 2" "N ?node = 5"
      by (simp_all add: loopNode_def)
    have len: "ComputeMinLength exampleExterns emptyNode = 0"
      by (simp add: exampleExterns_def emptyNode_def exampleMinLength.simps)
    obtain rm' where rm': "emitExecuteLoop exampleExterns ?e ?S ?node = Inr rm'"
      using emitExecuteLoop_general_returns [of ?node emptyNode "[]" ?S ?e exampleExterns]
      by (auto simp: node)
    from emitExecuteLoop_continuation_test [of ?node emptyNode "[]" ?S exampleExterns ?e rm']
    have "\<exists>rest. out rm' =
         [''startingStackpos = stackpos\<newline>'', ''loop_starting_pos = pos\<newline>'',
          ''loop_iteration = 0\<newline>\<newline>'', ''LoopBody:\<newline>'',
          ''r.StackPush2(loop_starting_pos, pos)\<newline>'', ''\<newline>'',
          ''loop_starting_pos = pos\<newline>'', ''loop_iteration++\<newline>\<newline>'',
          ''\<newline>'',
          ''\<newline>'',
          ''// The loop has a lower bound of 2 and an upper bound of {maxIterations}. Continue iterating\<newline>'' @ tabs 6 @ ''// greedily if the upper bound hasn't yet been reached and either the last iteration was non-empty or the\<newline>'' @ tabs 6 @ ''// lower bound hasn't yet been reached.\<newline>'' @ tabs 6 @ ''if (pos != loop_starting_pos || loop_iteration < 2) && loop_iteration < 5 {\<newline>'',
          ''goto LoopBody\<newline>'',
          ''}\<newline>'',
          ''goto LoopEnd\<newline>''] @ rest"
      by (simp add: node len rm' emitExecuteLoop_enter_example Let_def MaxInt32_def
            gotoLines_def jumpLines_def Itoa_def natstr.simps digit_def
            transferLines_def)
    with rm' show ?thesis by blast
  qed
  have optional: "(\<exists>rm' rest.
     emitExecuteLoop exampleExterns (\<lambda>rm node subsequent emitLengthChecksIfRequired. Inr rm)
        (exampleState (loopNode 0 1 (oneNode 97)) 0) (loopNode 0 1 (oneNode 97)) = Inr rm' \<and>
     out rm' =
       [''loop_iteration = 0\<newline>\<newline>'', ''LoopBody:\<newline>'',
        ''r.StackPush(pos)\<newline>'', ''\<newline>'', ''loop_iteration++\<newline>\<newline>'',
        ''\<newline>'',
        ''\<newline>'',
        ''// The loop has an upper bound of 1. Continue iterating greedily if it hasn't yet been reached.\<newline>'',
        ''if loop_iteration == 0 {\<newline>'',
        ''goto LoopBody\<newline>'',
        ''}\<newline>'',
        ''goto LoopEnd\<newline>''] @ rest)"
  proof -
    let ?e = "\<lambda>rm node subsequent emitLengthChecksIfRequired. Inr rm :: error + regexpData"
    let ?S = "exampleState (loopNode 0 1 (oneNode 97)) 0"
    let ?node = "loopNode 0 1 (oneNode 97)"
    have node: "Children ?node = oneNode 97 # []" "M ?node = 0" "N ?node = 1"
      by (simp_all add: loopNode_def)
    have len: "ComputeMinLength exampleExterns (oneNode 97) = 1"
      by (simp add: exampleExterns_def oneNode_def exampleMinLength.simps)
    obtain rm' where rm': "emitExecuteLoop exampleExterns ?e ?S ?node = Inr rm'"
      using emitExecuteLoop_general_returns [of ?node "oneNode 97" "[]" ?S ?e exampleExterns]
      by (auto simp: node)
    from emitExecuteLoop_continuation_test [of ?node "oneNode 97" "[]" ?S exampleExterns ?e rm']
    have "\<exists>rest. out rm' =
       [''loop_iteration = 0\<newline>\<newline>'', ''LoopBody:\<newline>'',
        ''r.StackPush(pos)\<newline>'', ''\<newline>'', ''loop_iteration++\<newline>\<newline>'',
        ''\<newline>'',
        ''\<newline>'',
        ''// The loop has an upper bound of 1. Continue iterating greedily if it hasn't yet been reached.\<newline>'',
        ''if loop_iteration == 0 {\<newline>'',
        ''goto LoopBody\<newline>'',
        ''}\<newline>'',
        ''goto LoopEnd\<newline>''] @ rest"
      by (simp add: node len rm' emitExecuteLoop_enter_optional Let_def MaxInt32_def
            gotoLines_def jumpLines_def Itoa_def natstr.simps digit_def transferLines_def)
    with rm' show ?thesis by blast
  qed
  from bounded optional show ?thesis by (rule conjI)
qed
section \<open>The state a loop inside another loop saves and restores\<close>

text \<open>
  C2.  A general loop that is not atomic, lies inside another loop and has both a starting
  position and a starting stack position ends as follows.  After the label of the end of the
  loop it pushes \<open>startingPos, startingStackpos, iterationCount\<close>; in its backtracking
  section it pops \<open>iterationCount, startingPos, startingPos\<close>.  The pops are therefore not
  the pushes in reverse order: the second value popped, the saved \<open>startingStackpos\<close>, is
  assigned to \<open>startingPos\<close> (and then overwritten), and \<open>startingStackpos\<close> is never
  restored.
\<close>

theorem emitExecuteLoop_exit_saved_state:
  assumes "\<not> loop_isAtomic L" "IsInLoop (Analysis rm) node"
    "loop_startingPos L \<noteq> []" "loop_startingStackpos L \<noteq> []"
  shows "out (emitExecuteLoop_exit L node childBacktracks rm) =
       out rm
       @ (if childBacktracks then
            gotoLines rm (loop_endLoop L)
            @ [''\<newline>'', fst (reserveName ''LoopBacktrack'' rm) @ '':\<newline>'',
               ''if '' @ loop_iterationCount L @ '' == 0 {\<newline>'' @ tabs 7
                 @ ''// No iterations of the loop remain to backtrack into. Fail the loop.\<newline>'']
            @ gotoLines rm (loop_originalDoneLabel L) @ [''}\<newline>'']
            @ gotoLines rm (doneLabel rm)
          else [])
       @ [loop_endLoop L @ '':\<newline>'', ''\<newline>'',
          pushLine [loop_startingPos L, loop_startingStackpos L, loop_iterationCount L]]
       @ gotoLines rm (fst (reserveName ''LoopSkipBacktrack'' rm))
       @ [''\<newline>'',
          fst (reserveName ''LoopBacktrack''
                 (if childBacktracks then snd (reserveName ''LoopBacktrack'' rm) else rm)) @ '':\<newline>'']
       @ popLines [loop_iterationCount L, loop_startingPos L, loop_startingPos L]
       @ gotoLines rm (if childBacktracks then fst (reserveName ''LoopBacktrack'' rm) else doneLabel rm)
       @ [''\<newline>'', fst (reserveName ''LoopSkipBacktrack'' rm) @ '':\<newline>'']"
  using assms
  by (cases childBacktracks)
     (simp_all add: emitExecuteLoop_exit_def Let_def createStackCookie_def split_beta reserveName_fst
        gotoLines_def
      cong: let_weak_cong prod.case_cong_weak)

theorem emitExecuteLoop_exit_saved_state_witness:
  "\<not> loop_isAtomic exampleLoopLocals
   \<and> IsInLoop (Analysis ((exampleState (loopNode 2 5 emptyNode) 0)\<lparr>Analysis := inLoopAnalysis\<rparr>))
         (loopNode 2 5 emptyNode)
   \<and> loop_startingPos exampleLoopLocals \<noteq> [] \<and> loop_startingStackpos exampleLoopLocals \<noteq> []
   \<and> out (emitExecuteLoop_exit exampleLoopLocals (loopNode 2 5 emptyNode) False
             ((exampleState (loopNode 2 5 emptyNode) 0)\<lparr>Analysis := inLoopAnalysis\<rparr>)) =
       [''LoopEnd:\<newline>'', ''\<newline>'',
        ''r.StackPush3(loop_starting_pos, startingStackpos, loop_iteration)\<newline>'',
        ''goto LoopSkipBacktrack\<newline>'',
        ''\<newline>'',
        ''LoopBacktrack:\<newline>'',
        ''loop_iteration = r.StackPop()\<newline>'',
        ''loop_starting_pos = r.StackPop()\<newline>'',
        ''loop_starting_pos = r.StackPop()\<newline>'',
        ''return nil // The input didn't match.\<newline>'',
        ''\<newline>'',
        ''LoopSkipBacktrack:\<newline>'']"
  using emitExecuteLoop_exit_saved_state [of exampleLoopLocals
          "(exampleState (loopNode 2 5 emptyNode) 0)\<lparr>Analysis := inLoopAnalysis\<rparr>"
          "loopNode 2 5 emptyNode" False]
  by (simp add: exampleLoopLocals_def inLoopAnalysis_def gotoLines_def jumpLines_def
        pushLine_def popLines_def reserveName_fst)
section \<open>The pre-check of a balancing group\<close>

text \<open>
  C3.  For a capture node that is a balancing group (\<open>uncapnum \<noteq> -1\<close>), the code that
  \<^verbatim>\<open>emitExecuteCapture\<close> writes before the code of the child ends with the pre-check: the
  line \<^verbatim>\<open>if r.IsMatched(uncapnum) {\<close>, the jump to \<open>doneLabel\<close>, and the closing brace.  The
  condition is not negated, so the emitted code jumps to \<open>doneLabel\<close> exactly when
  \<^verbatim>\<open>IsMatched(uncapnum)\<close> is true, and goes on into the child's code when it is false.
\<close>

theorem emitExecuteCapture_before_balancing:
  assumes "mapCaptureNumber (N node) (Caps (Tree rm)) \<noteq> - 1"
  shows "out (fst (emitExecuteCapture_before rm node)) =
       out rm
       @ transferLines (sliceSpan rm) (sliceStaticPos rm) False
       @ [fst (reserveName ''capture_starting_pos'' rm)
            @ (if IsInLoop (Analysis rm) node then '' := pos'' else '' = pos'') @ ''\<newline>'',
          ''\<newline>'',
          ''if r.IsMatched('' @ Itoa (mapCaptureNumber (N node) (Caps (Tree rm))) @ '') {'' @ ''\<newline>'']
       @ gotoLines rm (doneLabel rm)
       @ [''}\<newline>\<newline>'']
     \<and> doneLabel (fst (emitExecuteCapture_before rm node)) = doneLabel rm"
  using assms
  by (simp add: emitExecuteCapture_before_def Let_def split_beta reserveName_fst gotoLines_def
      cong: let_weak_cong prod.case_cong_weak)

theorem emitExecuteCapture_before_balancing_witness:
  "mapCaptureNumber (N balancingNode) (Caps (Tree (exampleState balancingNode 0))) \<noteq> - 1
   \<and> out (fst (emitExecuteCapture_before (exampleState balancingNode 0) balancingNode)) =
       [''capture_starting_pos = pos\<newline>'',
        ''\<newline>'',
        ''if r.IsMatched(1) {\<newline>'',
        ''return nil // The input didn't match.\<newline>'',
        ''}\<newline>\<newline>'']
   \<and> doneLabel (fst (emitExecuteCapture_before (exampleState balancingNode 0) balancingNode)) = ''NoMatch''"
  using emitExecuteCapture_before_balancing [of balancingNode "exampleState balancingNode 0"]
  by (simp add: balancingNode_def exampleTree_def exampleAnalysis_def mapCaptureNumber_def
        transferLines_def gotoLines_def jumpLines_def reserveName_fst Itoa_def natstr.simps digit_def)
section \<open>The description of a node\<close>





section \<open>Rules for a property of what an emitter returns\<close>

text \<open>
  The emitters are chains of \<open>let\<close>s.  Each rule takes one \<open>let\<close>, \<open>if\<close> or \<open>case\<close> off the
  term: the state bound by a \<open>let\<close> is replaced by an arbitrary state with the property \<open>S\<close>,
  a text by an arbitrary text with the property \<open>P\<close>, a value of another kind by an arbitrary
  value.
\<close>

lemma okR_simps [simp]: "okR R (Inl e)" "okR R (Inr x) = R x"
  by (simp_all add: okR_def)

lemma optOk_simps [simp]: "optOk P None" "optOk P (Some s) = P s"
  by (simp_all add: optOk_def)

lemma indexOfOk_simps [simp]: "indexOfOk P None" "indexOfOk P (Some (n, s)) = P s"
  by (simp_all add: indexOfOk_def)






















































section \<open>The steps only append to the output\<close>




lemma extends_trans: "extends a b \<Longrightarrow> extends b c \<Longrightarrow> extends a c"
  by (auto simp: extends_def sameConfig_def)





section \<open>The emitters only append to the output\<close>



























section \<open>Concatenations only append to the output\<close>









section \<open>Alternations only append to the output\<close>










section \<open>The dispatcher only appends to the output\<close>

section \<open>The choice of the switch for an alternation\<close>












section \<open>The general strategy for an alternation\<close>





section \<open>An alternation of literals is emitted\<close>
























end
